theory Spec2Isabelle
  imports Main "HOL-Library.Word"
begin

unbundle bit_operations_syntax

section \<open>Values of the Go runtime and of the libraries the service uses\<close>

text \<open>
  A Go \<^verbatim>\<open>string\<close> is a sequence of bytes and \<^verbatim>\<open>len\<close> counts bytes: it is an Isabelle
  \<^typ>\<open>string\<close>, whose characters are bytes. A \<^verbatim>\<open>time.Time\<close> is an instant, kept as the
  number of nanoseconds since the Unix epoch (UTC). A \<^verbatim>\<open>uuid.UUID\<close> is 16 bytes, kept as
  a 128-bit word; \<^verbatim>\<open>uuid.Nil\<close> is the zero word. The Go \<^verbatim>\<open>int\<close> of the version counter
  is a 64-bit word (\<^verbatim>\<open>++\<close> wraps), the \<^verbatim>\<open>int32\<close> fields of the wire messages are
  32-bit words read as signed numbers.
\<close>

type_synonym time = int

type_synonym UUID = "128 word"

definition uuid_Nil :: UUID where
  "uuid_Nil = 0"

definition nanos_per_day :: int where
  "nanos_per_day = 86400 * 1000000000"

text \<open>
  The proleptic Gregorian calendar, as \<^verbatim>\<open>Time.Date\<close> and \<^verbatim>\<open>time.Date\<close> compute it: the
  day number (days since 1970-01-01) of a year, month and day, and back. A day beyond the
  end of its month is normalised into the next month, as \<^verbatim>\<open>time.Date\<close> does.
\<close>

definition days_from_civil :: "int \<Rightarrow> int \<Rightarrow> int \<Rightarrow> int" where
  "days_from_civil y m d =
     (let y' = (if m \<le> 2 then y - 1 else y);
          era = y' div 400;
          yoe = y' - era * 400;
          doy = (153 * (if m > 2 then m - 3 else m + 9) + 2) div 5 + d - 1;
          doe = yoe * 365 + yoe div 4 - yoe div 100 + doy
      in era * 146097 + doe - 719468)"

definition civil_from_days :: "int \<Rightarrow> int \<times> int \<times> int" where
  "civil_from_days z =
     (let z' = z + 719468;
          era = z' div 146097;
          doe = z' - era * 146097;
          yoe = (doe - doe div 1460 + doe div 36524 - doe div 146096) div 365;
          y = yoe + era * 400;
          doy = doe - (365 * yoe + yoe div 4 - yoe div 100);
          mp = (5 * doy + 2) div 153;
          d = doy - (153 * mp + 2) div 5 + 1;
          m = (if mp < 10 then mp + 3 else mp - 9)
      in (if m \<le> 2 then y + 1 else y, m, d))"

text \<open>
  \<^verbatim>\<open>t.AddDate(years, 0, 0)\<close>: the same month, day and time of day in another year, with
  the calendar read in UTC.
\<close>

definition AddDate_years :: "time \<Rightarrow> int \<Rightarrow> time" where
  "AddDate_years t years =
     (case civil_from_days (t div nanos_per_day) of
        (y, m, d) \<Rightarrow> days_from_civil (y + years) m d * nanos_per_day + t mod nanos_per_day)"

text \<open>The zero \<^verbatim>\<open>time.Time\<close> is January 1 of year 1, 00:00 UTC.\<close>

definition time_IsZero :: "time \<Rightarrow> bool" where
  "time_IsZero t = (t = days_from_civil 1 1 1 * nanos_per_day)"

subsection \<open>Regular expressions\<close>

text \<open>
  Every pattern of the validator is a sequence, anchored at both ends, of character
  classes, each repeated between a least and a greatest number of times (\<open>None\<close>: no upper
  limit). \<^verbatim>\<open>MatchString\<close> holds when the whole string splits into such runs. The classes
  are ASCII, so a byte above 127 is in none of them, as no non-ASCII code point is.
\<close>

datatype rx = Rep "char \<Rightarrow> bool" nat "nat option"

fun MatchString :: "rx list \<Rightarrow> string \<Rightarrow> bool" where
  "MatchString [] s = (s = [])"
| "MatchString (Rep cls lo hi # rest) s =
     (let avail = length (takeWhile cls s);
          top = (case hi of None \<Rightarrow> avail | Some h \<Rightarrow> min h avail)
      in list_ex (\<lambda>k. MatchString rest (drop k s)) [lo ..< Suc top])"

definition in_range :: "char \<Rightarrow> char \<Rightarrow> char \<Rightarrow> bool" where
  "in_range lo hi c = ((of_char lo :: nat) \<le> of_char c \<and> (of_char c :: nat) \<le> of_char hi)"

definition is_digit :: "char \<Rightarrow> bool" where
  "is_digit c = in_range CHR ''0'' CHR ''9'' c"

definition is_upper :: "char \<Rightarrow> bool" where
  "is_upper c = in_range CHR ''A'' CHR ''Z'' c"

definition is_lower :: "char \<Rightarrow> bool" where
  "is_lower c = in_range CHR ''a'' CHR ''z'' c"

definition is_alpha :: "char \<Rightarrow> bool" where
  "is_alpha c = (is_lower c \<or> is_upper c)"

definition once :: "(char \<Rightarrow> bool) \<Rightarrow> rx" where
  "once cls = Rep cls 1 (Some 1)"

definition lit :: "char \<Rightarrow> rx" where
  "lit ch = once (\<lambda>c. c = ch)"

subsection \<open>Decimal numbers and base64 text\<close>

text \<open>The verb \<^verbatim>\<open>%d\<close> of \<^verbatim>\<open>fmt\<close>.\<close>

fun decimal :: "nat \<Rightarrow> string" where
  "decimal n =
     (if n < 10 then [''0123456789'' ! n]
      else decimal (n div 10) @ [''0123456789'' ! (n mod 10)])"

declare decimal.simps [simp del]

definition decimal_int :: "int \<Rightarrow> string" where
  "decimal_int i = (if i < 0 then CHR ''-'' # decimal (nat (- i)) else decimal (nat i))"

text \<open>
  \<^verbatim>\<open>base64.StdEncoding\<close>: the standard alphabet with \<^verbatim>\<open>=\<close> padding. The encoder
  turns each three bytes into four symbols and pads the last group. The decoder skips
  carriage returns and line feeds, reads groups of four symbols, accepts padding in the last
  group only and rejects everything else; the text of its error is not kept.
\<close>

definition encodeStd :: string where
  "encodeStd = ''ABCDEFGHIJKLMNOPQRSTUVWXYZabcdefghijklmnopqrstuvwxyz0123456789+/''"

definition b64_sym :: "nat \<Rightarrow> char" where
  "b64_sym n = encodeStd ! (n mod 64)"

fun index_of :: "char \<Rightarrow> string \<Rightarrow> nat option" where
  "index_of c [] = None"
| "index_of c (x # xs) =
     (if c = x then Some 0 else map_option Suc (index_of c xs))"

definition b64_val :: "char \<Rightarrow> nat option" where
  "b64_val c = index_of c encodeStd"

fun base64_EncodeToString :: "string \<Rightarrow> string" where
  "base64_EncodeToString [] = []"
| "base64_EncodeToString [a] =
     [b64_sym (of_char a div 4), b64_sym (of_char a mod 4 * 16), CHR ''='', CHR ''='']"
| "base64_EncodeToString [a, b] =
     [b64_sym (of_char a div 4), b64_sym (of_char a mod 4 * 16 + of_char b div 16),
      b64_sym (of_char b mod 16 * 4), CHR ''='']"
| "base64_EncodeToString (a # b # c # rest) =
     [b64_sym (of_char a div 4), b64_sym (of_char a mod 4 * 16 + of_char b div 16),
      b64_sym (of_char b mod 16 * 4 + of_char c div 64), b64_sym (of_char c mod 64)]
     @ base64_EncodeToString rest"

fun decode_quanta :: "string \<Rightarrow> string option" where
  "decode_quanta [] = Some []"
| "decode_quanta (p # q # r # s # rest) =
     (case (b64_val p, b64_val q) of
        (Some v0, Some v1) \<Rightarrow>
          if r = CHR ''='' then
            (if s = CHR ''='' \<and> rest = [] then Some [char_of (v0 * 4 + v1 div 16)] else None)
          else
            (case b64_val r of
               None \<Rightarrow> None
             | Some v2 \<Rightarrow>
                 if s = CHR ''='' then
                   (if rest = [] then
                      Some [char_of (v0 * 4 + v1 div 16), char_of (v1 mod 16 * 16 + v2 div 4)]
                    else None)
                 else
                   (case b64_val s of
                      None \<Rightarrow> None
                    | Some v3 \<Rightarrow>
                        map_option
                          (\<lambda>more. char_of (v0 * 4 + v1 div 16) #
                                   char_of (v1 mod 16 * 16 + v2 div 4) #
                                   char_of (v2 mod 4 * 64 + v3) # more)
                          (decode_quanta rest)))
      | _ \<Rightarrow> None)"
| "decode_quanta _ = None"

declare base64_EncodeToString.simps [simp del]

definition base64_DecodeString :: "string \<Rightarrow> string option" where
  "base64_DecodeString s =
     decode_quanta (filter (\<lambda>c. c \<noteq> CHR 0x0D \<and> c \<noteq> CHR 0x0A) s)"

section \<open>Domain model (internal/models/customer.go)\<close>

text \<open>
  The Go enumerations are string types (\<^verbatim>\<open>type CustomerStatus string\<close>): any string can
  be converted to one, and membership is checked by hand. They are modelled as strings with
  named constants, so that the hand-written checks of the source stay visible.
\<close>

type_synonym CustomerStatus = string

definition CustomerStatusPending :: CustomerStatus where
  "CustomerStatusPending = ''Pending''"

definition CustomerStatusActive :: CustomerStatus where
  "CustomerStatusActive = ''Active''"

definition CustomerStatusInactive :: CustomerStatus where
  "CustomerStatusInactive = ''Inactive''"

definition CustomerStatusSuspended :: CustomerStatus where
  "CustomerStatusSuspended = ''Suspended''"

definition CustomerStatusClosed :: CustomerStatus where
  "CustomerStatusClosed = ''Closed''"

definition CustomerStatus_IsValid :: "CustomerStatus \<Rightarrow> bool" where
  "CustomerStatus_IsValid s =
     (s = CustomerStatusPending \<or> s = CustomerStatusActive \<or> s = CustomerStatusInactive \<or>
      s = CustomerStatusSuspended \<or> s = CustomerStatusClosed)"

type_synonym AddressType = string

definition AddressTypePhysical :: AddressType where
  "AddressTypePhysical = ''Physical''"

definition AddressTypeMailing :: AddressType where
  "AddressTypeMailing = ''Mailing''"

definition AddressTypeBusiness :: AddressType where
  "AddressTypeBusiness = ''Business''"

definition AddressType_IsValid :: "AddressType \<Rightarrow> bool" where
  "AddressType_IsValid t =
     (t = AddressTypePhysical \<or> t = AddressTypeMailing \<or> t = AddressTypeBusiness)"

type_synonym DocumentType = string

definition DocumentTypePassport :: DocumentType where
  "DocumentTypePassport = ''Passport''"

definition DocumentTypeDriversLicense :: DocumentType where
  "DocumentTypeDriversLicense = ''DriversLicense''"

definition DocumentTypeNationalID :: DocumentType where
  "DocumentTypeNationalID = ''NationalID''"

definition DocumentTypeSSN :: DocumentType where
  "DocumentTypeSSN = ''SSN''"

definition DocumentTypeTaxID :: DocumentType where
  "DocumentTypeTaxID = ''TaxID''"

definition DocumentTypeUtilityBill :: DocumentType where
  "DocumentTypeUtilityBill = ''UtilityBill''"

definition DocumentTypeBankStatement :: DocumentType where
  "DocumentTypeBankStatement = ''BankStatement''"

definition DocumentType_IsValid :: "DocumentType \<Rightarrow> bool" where
  "DocumentType_IsValid t =
     (t = DocumentTypePassport \<or> t = DocumentTypeDriversLicense \<or> t = DocumentTypeNationalID \<or>
      t = DocumentTypeSSN \<or> t = DocumentTypeTaxID \<or> t = DocumentTypeUtilityBill \<or>
      t = DocumentTypeBankStatement)"

type_synonym VerificationStatus = string

definition VerificationStatusPending :: VerificationStatus where
  "VerificationStatusPending = ''Pending''"

definition VerificationStatusVerified :: VerificationStatus where
  "VerificationStatusVerified = ''Verified''"

definition VerificationStatusExpired :: VerificationStatus where
  "VerificationStatusExpired = ''Expired''"

definition VerificationStatusRejected :: VerificationStatus where
  "VerificationStatusRejected = ''Rejected''"

text \<open>
  The entities. A pointer field that may be \<^verbatim>\<open>nil\<close> (\<^verbatim>\<open>*string\<close>, \<^verbatim>\<open>*uuid.UUID\<close>,
  \<^verbatim>\<open>*time.Time\<close>) is an option. A row of a table has the type of its entity; in a stored
  customer row \<open>c_TaxID\<close> holds the encoded ciphertext, and in a stored document row
  \<open>d_DocumentNumber\<close> does.
\<close>

record Customer =
  c_ID :: UUID
  c_CustomerNumber :: string
  c_FirstName :: string
  c_MiddleName :: "string option"
  c_LastName :: string
  c_DateOfBirth :: time
  c_TaxID :: string
  c_Email :: string
  c_Phone :: string
  c_Status :: CustomerStatus
  c_CreatedAt :: time
  c_UpdatedAt :: time
  c_CreatedBy :: UUID
  c_UpdatedBy :: "UUID option"
  c_Version :: "64 word"

record Address =
  a_ID :: UUID
  a_CustomerID :: UUID
  a_AddressType :: AddressType
  a_Street1 :: string
  a_Street2 :: "string option"
  a_City :: string
  a_State :: string
  a_PostalCode :: string
  a_Country :: string
  a_IsPrimary :: bool
  a_ValidFrom :: time
  a_ValidTo :: "time option"
  a_CreatedAt :: time
  a_UpdatedAt :: time

record CustomerDocument =
  d_ID :: UUID
  d_CustomerID :: UUID
  d_DocumentType :: DocumentType
  d_DocumentNumber :: string
  d_IssuingAuthority :: string
  d_IssuingCountry :: string
  d_IssueDate :: time
  d_ExpiryDate :: time
  d_VerificationStatus :: VerificationStatus
  d_VerifiedAt :: "time option"
  d_VerifiedBy :: "UUID option"
  d_CreatedAt :: time
  d_UpdatedAt :: time

record SearchFilters =
  f_FirstName :: string
  f_LastName :: string
  f_Email :: string
  f_Phone :: string
  f_Status :: CustomerStatus
  f_FromDate :: "time option"
  f_ToDate :: "time option"
  f_Limit :: int
  f_Offset :: int

record StatusChange =
  sch_ID :: UUID
  sch_CustomerID :: UUID
  sch_PreviousStatus :: CustomerStatus
  sch_NewStatus :: CustomerStatus
  sch_Reason :: string
  sch_ChangedBy :: UUID
  sch_ChangedAt :: time

section \<open>Wire messages (internal/proto/customerpb)\<close>

text \<open>
  The generated message types are not part of the sources; the records below hold the
  fields that the validator and the service read through the getters and write into the
  responses. A message field that may be absent (a timestamp) is an option.
\<close>

record CreateCustomerRequest =
  cc_FirstName :: string
  cc_MiddleName :: string
  cc_LastName :: string
  cc_DateOfBirth :: "time option"
  cc_TaxId :: string
  cc_Email :: string
  cc_Phone :: string
  cc_CreatedBy :: string

record UpdateCustomerRequest =
  uc_Id :: string
  uc_Version :: "32 word"
  uc_FirstName :: string
  uc_MiddleName :: string
  uc_LastName :: string
  uc_DateOfBirth :: "time option"
  uc_TaxId :: string
  uc_Email :: string
  uc_Phone :: string
  uc_UpdatedBy :: string

record SearchCustomersRequest =
  sc_FirstName :: string
  sc_LastName :: string
  sc_Email :: string
  sc_Phone :: string
  sc_Status :: string
  sc_Limit :: "32 word"
  sc_Offset :: "32 word"
  sc_FromDate :: "time option"
  sc_ToDate :: "time option"

record AddAddressRequest =
  aa_CustomerId :: string
  aa_AddressType :: string
  aa_Street1 :: string
  aa_Street2 :: string
  aa_City :: string
  aa_State :: string
  aa_PostalCode :: string
  aa_Country :: string
  aa_IsPrimary :: bool
  aa_ValidFrom :: "time option"
  aa_ValidTo :: "time option"

record AddDocumentRequest =
  ad_CustomerId :: string
  ad_DocumentType :: string
  ad_DocumentNumber :: string
  ad_IssuingAuthority :: string
  ad_IssuingCountry :: string
  ad_IssueDate :: "time option"
  ad_ExpiryDate :: "time option"

record UpdateCustomerStatusRequest =
  us_Id :: string
  us_NewStatus :: string
  us_Reason :: string
  us_ChangedBy :: string

record pb_Customer =
  pc_Id :: string
  pc_CustomerNumber :: string
  pc_FirstName :: string
  pc_MiddleName :: string
  pc_LastName :: string
  pc_DateOfBirth :: "time option"
  pc_Email :: string
  pc_Phone :: string
  pc_Status :: string
  pc_CreatedAt :: "time option"
  pc_UpdatedAt :: "time option"
  pc_CreatedBy :: string
  pc_UpdatedBy :: string
  pc_Version :: "32 word"

record pb_Address =
  pa_Id :: string
  pa_CustomerId :: string
  pa_AddressType :: string
  pa_Street1 :: string
  pa_Street2 :: string
  pa_City :: string
  pa_State :: string
  pa_PostalCode :: string
  pa_Country :: string
  pa_IsPrimary :: bool
  pa_ValidFrom :: "time option"
  pa_ValidTo :: "time option"
  pa_CreatedAt :: "time option"
  pa_UpdatedAt :: "time option"

record pb_Document =
  pd_Id :: string
  pd_CustomerId :: string
  pd_DocumentType :: string
  pd_DocumentNumber :: string
  pd_IssuingAuthority :: string
  pd_IssuingCountry :: string
  pd_VerificationStatus :: string
  pd_IssueDate :: "time option"
  pd_ExpiryDate :: "time option"
  pd_CreatedAt :: "time option"
  pd_UpdatedAt :: "time option"
  pd_VerifiedAt :: "time option"
  pd_VerifiedBy :: string

record pb_StatusChange =
  ps_Id :: string
  ps_CustomerId :: string
  ps_PreviousStatus :: string
  ps_NewStatus :: string
  ps_Reason :: string
  ps_ChangedBy :: string
  ps_ChangedAt :: "time option"

record SearchCustomersResponse =
  Customers :: "pb_Customer list"
  Total :: "32 word"

record UpdateCustomerStatusResponse =
  usr_Customer :: pb_Customer
  usr_StatusChange :: pb_StatusChange

section \<open>Validator (internal/validation)\<close>

record ValidationError =
  Field :: string
  Message :: string

definition ValidationError_Error :: "ValidationError \<Rightarrow> string" where
  "ValidationError_Error e = Field e @ '': '' @ Message e"

text \<open>The loop of \<^verbatim>\<open>ValidationErrors.Error\<close>, which puts a comma before all but the first.\<close>

fun join_errors :: "ValidationError list \<Rightarrow> string" where
  "join_errors [] = []"
| "join_errors [e] = ValidationError_Error e"
| "join_errors (e # es) = ValidationError_Error e @ '', '' @ join_errors es"

definition ValidationErrors_Error :: "ValidationError list \<Rightarrow> string" where
  "ValidationErrors_Error e =
     (if length e = 0 then [] else ''validation failed: '' @ join_errors e)"

subsection \<open>Patterns\<close>

text \<open>\<^verbatim>\<open>^[a-zA-Z0-9._%+-]+@[a-zA-Z0-9.-]+\.[a-zA-Z]{2,}$\<close>\<close>

definition EmailRegex :: "rx list" where
  "EmailRegex =
     [Rep (\<lambda>c. is_alpha c \<or> is_digit c \<or> c \<in> set ''._%+-'') 1 None,
      lit CHR ''@'',
      Rep (\<lambda>c. is_alpha c \<or> is_digit c \<or> c \<in> set ''.-'') 1 None,
      lit CHR ''.'',
      Rep is_alpha 2 None]"

text \<open>\<^verbatim>\<open>^\+?[1-9]\d{1,14}$\<close>\<close>

definition PhoneRegex :: "rx list" where
  "PhoneRegex =
     [Rep (\<lambda>c. c = CHR ''+'') 0 (Some 1),
      once (in_range CHR ''1'' CHR ''9''),
      Rep is_digit 1 (Some 14)]"

text \<open>\<^verbatim>\<open>^\d{3}-\d{2}-\d{4}$\<close>\<close>

definition USSSNRegex :: "rx list" where
  "USSSNRegex =
     [Rep is_digit 3 (Some 3), lit CHR ''-'', Rep is_digit 2 (Some 2), lit CHR ''-'',
      Rep is_digit 4 (Some 4)]"

text \<open>\<^verbatim>\<open>^[A-Z]{2}\d{6}[A-Z]$\<close>\<close>

definition UKNINumberRegex :: "rx list" where
  "UKNINumberRegex = [Rep is_upper 2 (Some 2), Rep is_digit 6 (Some 6), once is_upper]"

text \<open>\<^verbatim>\<open>^[A-Z]{2}\d{8,12}$\<close>\<close>

definition EUTaxIDRegex :: "rx list" where
  "EUTaxIDRegex = [Rep is_upper 2 (Some 2), Rep is_digit 8 (Some 12)]"

text \<open>\<^verbatim>\<open>^[A-Z0-9]{5,20}$\<close>, the pattern compiled inside \<^verbatim>\<open>ValidateTaxID\<close>.\<close>

definition GenericTaxIDRegex :: "rx list" where
  "GenericTaxIDRegex = [Rep (\<lambda>c. is_upper c \<or> is_digit c) 5 (Some 20)]"

subsection \<open>Payload checks\<close>

text \<open>
  Each check reads the clock where the source calls \<^verbatim>\<open>time.Now()\<close>; the reading \<open>now\<close>
  is an argument, the same for the calls within one validation.
\<close>

definition ValidateTaxID :: "string \<Rightarrow> string \<Rightarrow> ValidationError option" where
  "ValidateTaxID taxID country =
     (if length taxID < 5 \<or> length taxID > 50 then
        Some \<lparr>Field = ''tax_id'', Message = ''must be between 5 and 50 characters''\<rparr>
      else if country = ''US'' then
        (if \<not> MatchString USSSNRegex taxID then
           Some \<lparr>Field = ''tax_id'', Message = ''invalid US SSN format (XXX-XX-XXXX)''\<rparr>
         else None)
      else if country = ''UK'' then
        (if \<not> MatchString UKNINumberRegex taxID then
           Some \<lparr>Field = ''tax_id'', Message = ''invalid UK NINO format''\<rparr>
         else None)
      else if country = ''DE'' \<or> country = ''FR'' \<or> country = ''IT'' \<or> country = ''ES'' then
        (if \<not> MatchString EUTaxIDRegex taxID then
           Some \<lparr>Field = ''tax_id'', Message = ''invalid EU tax ID format''\<rparr>
         else None)
      else
        (if \<not> MatchString GenericTaxIDRegex taxID then
           Some \<lparr>Field = ''tax_id'', Message = ''invalid tax ID format''\<rparr>
         else None))"

text \<open>
  The source repeats some blocks field by field (a required name of 2 to 100 bytes, a
  required field with a greatest length, a required two-letter country code, the tax
  identifier check of create and update); each such block is written once here.
\<close>

definition name_errors :: "string \<Rightarrow> string \<Rightarrow> ValidationError list" where
  "name_errors field v =
     (if v = [] then [\<lparr>Field = field, Message = ''is required''\<rparr>]
      else if length v < 2 \<or> length v > 100 then
        [\<lparr>Field = field, Message = ''must be between 2 and 100 characters''\<rparr>]
      else [])"

definition tax_id_errors :: "string \<Rightarrow> ValidationError list" where
  "tax_id_errors taxId =
     (if taxId \<noteq> [] then
        (case ValidateTaxID taxId [] of Some err \<Rightarrow> [err] | None \<Rightarrow> [])
      else [])"

definition ValidateCustomerCreate :: "time \<Rightarrow> CreateCustomerRequest \<Rightarrow> ValidationError list" where
  "ValidateCustomerCreate now req =
     name_errors ''first_name'' (cc_FirstName req) @
     name_errors ''last_name'' (cc_LastName req) @
     (if cc_Email req = [] then [\<lparr>Field = ''email'', Message = ''is required''\<rparr>]
      else if \<not> MatchString EmailRegex (cc_Email req) then
        [\<lparr>Field = ''email'', Message = ''is invalid format''\<rparr>]
      else []) @
     (if cc_Phone req \<noteq> [] \<and> \<not> MatchString PhoneRegex (cc_Phone req) then
        [\<lparr>Field = ''phone'',
          Message = ''is invalid format. Use international format e.g., +1234567890''\<rparr>]
      else []) @
     (case cc_DateOfBirth req of
        None \<Rightarrow> [\<lparr>Field = ''date_of_birth'', Message = ''is required''\<rparr>]
      | Some dob \<Rightarrow>
          (if dob > AddDate_years now (- 18) then
             [\<lparr>Field = ''date_of_birth'', Message = ''customer must be at least 18 years old''\<rparr>]
           else []) @
          (if dob < AddDate_years now (- 150) then
             [\<lparr>Field = ''date_of_birth'', Message = ''date of birth is too far in the past''\<rparr>]
           else [])) @
     tax_id_errors (cc_TaxId req)"

definition ValidateCustomerUpdate :: "time \<Rightarrow> UpdateCustomerRequest \<Rightarrow> ValidationError list" where
  "ValidateCustomerUpdate now req =
     (if uc_Id req = [] then [\<lparr>Field = ''id'', Message = ''is required''\<rparr>] else []) @
     (if uc_Version req = 0 then
        [\<lparr>Field = ''version'', Message = ''is required for optimistic locking''\<rparr>]
      else []) @
     (if uc_FirstName req \<noteq> [] \<and>
         (length (uc_FirstName req) < 2 \<or> length (uc_FirstName req) > 100) then
        [\<lparr>Field = ''first_name'', Message = ''must be between 2 and 100 characters''\<rparr>]
      else []) @
     (if uc_LastName req \<noteq> [] \<and>
         (length (uc_LastName req) < 2 \<or> length (uc_LastName req) > 100) then
        [\<lparr>Field = ''last_name'', Message = ''must be between 2 and 100 characters''\<rparr>]
      else []) @
     (if uc_Email req \<noteq> [] \<and> \<not> MatchString EmailRegex (uc_Email req) then
        [\<lparr>Field = ''email'', Message = ''is invalid format''\<rparr>]
      else []) @
     (if uc_Phone req \<noteq> [] \<and> \<not> MatchString PhoneRegex (uc_Phone req) then
        [\<lparr>Field = ''phone'',
          Message = ''is invalid format. Use international format e.g., +1234567890''\<rparr>]
      else []) @
     (case uc_DateOfBirth req of
        None \<Rightarrow> []
      | Some dob \<Rightarrow>
          (if dob > AddDate_years now (- 18) then
             [\<lparr>Field = ''date_of_birth'', Message = ''customer must be at least 18 years old''\<rparr>]
           else [])) @
     tax_id_errors (uc_TaxId req)"

definition required_max :: "string \<Rightarrow> nat \<Rightarrow> string \<Rightarrow> string \<Rightarrow> ValidationError list" where
  "required_max field n too_long v =
     (if v = [] then [\<lparr>Field = field, Message = ''is required''\<rparr>]
      else if length v > n then [\<lparr>Field = field, Message = too_long\<rparr>]
      else [])"

definition country_errors :: "string \<Rightarrow> string \<Rightarrow> ValidationError list" where
  "country_errors field v =
     (if v = [] then [\<lparr>Field = field, Message = ''is required''\<rparr>]
      else if length v \<noteq> 2 then
        [\<lparr>Field = field, Message = ''must be a 2-letter ISO country code''\<rparr>]
      else [])"

definition ValidateAddress :: "AddAddressRequest \<Rightarrow> ValidationError list" where
  "ValidateAddress req =
     (if aa_CustomerId req = [] then [\<lparr>Field = ''customer_id'', Message = ''is required''\<rparr>]
      else []) @
     required_max ''street1'' 200 ''must not exceed 200 characters'' (aa_Street1 req) @
     required_max ''city'' 100 ''must not exceed 100 characters'' (aa_City req) @
     required_max ''state'' 100 ''must not exceed 100 characters'' (aa_State req) @
     required_max ''postal_code'' 20 ''must not exceed 20 characters'' (aa_PostalCode req) @
     country_errors ''country'' (aa_Country req) @
     (if aa_AddressType req \<noteq> [] \<and> \<not> AddressType_IsValid (aa_AddressType req) then
        [\<lparr>Field = ''address_type'', Message = ''must be Physical, Mailing, or Business''\<rparr>]
      else [])"

definition ValidateDocument :: "time \<Rightarrow> AddDocumentRequest \<Rightarrow> ValidationError list" where
  "ValidateDocument now req =
     (if ad_CustomerId req = [] then [\<lparr>Field = ''customer_id'', Message = ''is required''\<rparr>]
      else []) @
     (if ad_DocumentType req = [] then
        [\<lparr>Field = ''document_type'', Message = ''is required''\<rparr>]
      else if \<not> DocumentType_IsValid (ad_DocumentType req) then
        [\<lparr>Field = ''document_type'', Message = ''is invalid document type''\<rparr>]
      else []) @
     required_max ''document_number'' 50 ''must not exceed 50 characters''
       (ad_DocumentNumber req) @
     country_errors ''issuing_country'' (ad_IssuingCountry req) @
     (if ad_IssuingAuthority req = [] then
        [\<lparr>Field = ''issuing_authority'', Message = ''is required''\<rparr>]
      else []) @
     (if ad_IssueDate req = None then [\<lparr>Field = ''issue_date'', Message = ''is required''\<rparr>]
      else []) @
     (case ad_ExpiryDate req of
        None \<Rightarrow> [\<lparr>Field = ''expiry_date'', Message = ''is required''\<rparr>]
      | Some expiryDate \<Rightarrow>
          (if expiryDate < now then
             [\<lparr>Field = ''expiry_date'', Message = ''must be in the future''\<rparr>]
           else []) @
          (case ad_IssueDate req of
             None \<Rightarrow> []
           | Some issueDate \<Rightarrow>
               (if expiryDate < issueDate then
                  [\<lparr>Field = ''expiry_date'', Message = ''must be after issue date''\<rparr>]
                else [])))"

definition ValidateSearchFilters :: "SearchCustomersRequest \<Rightarrow> ValidationError list" where
  "ValidateSearchFilters req =
     (if sint (sc_Limit req) < 0 then [\<lparr>Field = ''limit'', Message = ''must be non-negative''\<rparr>]
      else []) @
     (if sint (sc_Limit req) > 100 then [\<lparr>Field = ''limit'', Message = ''must not exceed 100''\<rparr>]
      else []) @
     (if sint (sc_Offset req) < 0 then
        [\<lparr>Field = ''offset'', Message = ''must be non-negative''\<rparr>]
      else []) @
     (if sc_Status req \<noteq> [] \<and> \<not> CustomerStatus_IsValid (sc_Status req) then
        [\<lparr>Field = ''status'', Message = ''is invalid status''\<rparr>]
      else []) @
     (if sc_Email req \<noteq> [] \<and> \<not> MatchString EmailRegex (sc_Email req) then
        [\<lparr>Field = ''email'', Message = ''is invalid format''\<rparr>]
      else []) @
     (if sc_Phone req \<noteq> [] \<and> \<not> MatchString PhoneRegex (sc_Phone req) then
        [\<lparr>Field = ''phone'', Message = ''is invalid format''\<rparr>]
      else [])"

subsection \<open>Status transition state machine\<close>

text \<open>
  \<^verbatim>\<open>validTransitions\<close> is a Go map literal from the current status to the slice of allowed
  targets; it is an association list here, looked up with \<^const>\<open>map_of\<close> (the keys are
  distinct, so the lookup is that of the map).
\<close>

definition validTransitions :: "(CustomerStatus \<times> CustomerStatus list) list" where
  "validTransitions =
     [(CustomerStatusPending, [CustomerStatusActive, CustomerStatusClosed]),
      (CustomerStatusActive, [CustomerStatusInactive, CustomerStatusSuspended, CustomerStatusClosed]),
      (CustomerStatusInactive, [CustomerStatusActive, CustomerStatusSuspended, CustomerStatusClosed]),
      (CustomerStatusSuspended, [CustomerStatusActive, CustomerStatusInactive, CustomerStatusClosed]),
      (CustomerStatusClosed, [])]"

text \<open>The loop \<^verbatim>\<open>for _, allowed := range allowedTransitions\<close> with its early return.\<close>

fun transition_allowed :: "CustomerStatus list \<Rightarrow> CustomerStatus \<Rightarrow> bool" where
  "transition_allowed [] newStatus = False"
| "transition_allowed (allowed # rest) newStatus =
     (if allowed = newStatus then True else transition_allowed rest newStatus)"

text \<open>The Go \<^verbatim>\<open>error\<close> result: \<open>None\<close> is \<^verbatim>\<open>nil\<close>, \<open>Some msg\<close> an error with that message.\<close>

definition ValidateStatusTransition :: "CustomerStatus \<Rightarrow> CustomerStatus \<Rightarrow> string option" where
  "ValidateStatusTransition currentStatus newStatus =
     (case map_of validTransitions currentStatus of
        None \<Rightarrow> Some (''invalid current status: '' @ currentStatus)
      | Some allowedTransitions \<Rightarrow>
          if transition_allowed allowedTransitions newStatus then None
          else Some (''invalid status transition from '' @ currentStatus @ '' to '' @ newStatus))"

section \<open>The environment of one service process\<close>

text \<open>
  What the code reaches outside itself is made explicit. The libraries whose code is not
  part of the repository and cannot be written out here are arguments of the model:
  the AES-GCM sealing and opening of \<^verbatim>\<open>crypto/cipher\<close> (key, nonce, text), the parser and
  printer of \<^verbatim>\<open>github.com/google/uuid\<close>, and the \<^verbatim>\<open>ILIKE\<close> operator of the SQL engine
  (value, pattern).
\<close>

record externals =
  aead_Seal :: "string \<Rightarrow> string \<Rightarrow> string \<Rightarrow> string"
  aead_Open :: "string \<Rightarrow> string \<Rightarrow> string \<Rightarrow> string option"
  uuid_Parse :: "string \<Rightarrow> string + UUID"
  uuid_String :: "UUID \<Rightarrow> string"
  ilike :: "string \<Rightarrow> string \<Rightarrow> bool"

text \<open>
  The relational store holds the three tables of the migration, each a list of rows.
  Every statement the repository sends is one atomic step of the engine. Before it runs,
  the world may move: \<open>schedule\<close> lists, statement by statement, what happens then.
  \<open>Proceed\<close> (or an exhausted schedule) runs the statement on the tables as they are;
  \<open>Fault msg\<close> makes the driver return the error \<open>msg\<close> instead (lost connection,
  violated constraint, cancelled context), the tables untouched; \<open>Writer f\<close> lets other
  clients of the same store change the tables by \<open>f\<close> first.
\<close>

record database =
  customers :: "Customer list"
  addresses :: "Address list"
  customer_documents :: "CustomerDocument list"

datatype db_event = Proceed | Fault string | Writer "database \<Rightarrow> database"

text \<open>
  \<open>clock\<close> is what \<^verbatim>\<open>time.Now()\<close> reads, \<open>rand_Reader\<close> the bytes \<^verbatim>\<open>crypto/rand\<close> has
  left to give, \<open>fresh_uuids\<close> the values \<^verbatim>\<open>uuid.New()\<close> returns one after the other, and
  \<open>stdout\<close> the lines printed so far.
\<close>

record world =
  db :: database
  schedule :: "db_event list"
  clock :: time
  rand_Reader :: string
  fresh_uuids :: "nat \<Rightarrow> UUID"
  uuid_count :: nat
  stdout :: "string list"

definition db_statement :: "world \<Rightarrow> string option \<times> world" where
  "db_statement w =
     (case schedule w of
        [] \<Rightarrow> (None, w)
      | ev # later \<Rightarrow>
          (case ev of
             Proceed \<Rightarrow> (None, w\<lparr>schedule := later\<rparr>)
           | Fault msg \<Rightarrow> (Some msg, w\<lparr>schedule := later\<rparr>)
           | Writer f \<Rightarrow> (None, w\<lparr>schedule := later, db := f (db w)\<rparr>)))"

definition uuid_New :: "world \<Rightarrow> UUID \<times> world" where
  "uuid_New w = (fresh_uuids w (uuid_count w), w\<lparr>uuid_count := Suc (uuid_count w)\<rparr>)"

text \<open>
  \<^verbatim>\<open>io.ReadFull(rand.Reader, buf)\<close> for a buffer of \<open>n\<close> bytes: the bytes, or the error
  text when the source ends first (\<^verbatim>\<open>EOF\<close> if it gave nothing).
\<close>

definition io_ReadFull :: "nat \<Rightarrow> world \<Rightarrow> (string + string) \<times> world" where
  "io_ReadFull n w =
     (if n \<le> length (rand_Reader w) then
        (Inr (take n (rand_Reader w)), w\<lparr>rand_Reader := drop n (rand_Reader w)\<rparr>)
      else (Inl (if rand_Reader w = [] then ''EOF'' else ''unexpected EOF''),
            w\<lparr>rand_Reader := []\<rparr>))"

definition zero_time :: time where
  "zero_time = days_from_civil 1 1 1 * nanos_per_day"

section \<open>Cipher service (internal/encryption/encryptor.go)\<close>

record Encryptor =
  key :: string

definition NewEncryptor :: "string \<Rightarrow> string + Encryptor" where
  "NewEncryptor k =
     (if length k \<noteq> 32 then
        Inl (''encryption key must be exactly 32 bytes, got '' @ decimal (length k))
      else Inr \<lparr>key = k\<rparr>)"

text \<open>
  \<^verbatim>\<open>aes.NewCipher\<close> accepts keys of 16, 24 or 32 bytes; \<^verbatim>\<open>cipher.NewGCM\<close> does not fail on
  an AES block. The nonce of GCM has 12 bytes.
\<close>

definition aes_NewCipher :: "string \<Rightarrow> string option" where
  "aes_NewCipher k =
     (if length k = 16 \<or> length k = 24 \<or> length k = 32 then None
      else Some (''crypto/aes: invalid key size '' @ decimal (length k)))"

definition NonceSize :: nat where
  "NonceSize = 12"

definition Encrypt :: "externals \<Rightarrow> Encryptor \<Rightarrow> string \<Rightarrow> world \<Rightarrow> (string + string) \<times> world" where
  "Encrypt ext e plaintext w =
     (if plaintext = [] then (Inr [], w)
      else
        (case aes_NewCipher (key e) of
           Some err \<Rightarrow> (Inl (''failed to create cipher: '' @ err), w)
         | None \<Rightarrow>
             (case io_ReadFull NonceSize w of
                (Inl err, w') \<Rightarrow> (Inl (''failed to generate nonce: '' @ err), w')
              | (Inr nonce, w') \<Rightarrow>
                  (Inr (base64_EncodeToString (nonce @ aead_Seal ext (key e) nonce plaintext)),
                   w'))))"

definition Decrypt :: "externals \<Rightarrow> Encryptor \<Rightarrow> string \<Rightarrow> string + string" where
  "Decrypt ext e ciphertext =
     (if ciphertext = [] then Inr []
      else
        (case base64_DecodeString ciphertext of
           None \<Rightarrow> Inl ''failed to decode base64: illegal base64 data''
         | Some data \<Rightarrow>
             (case aes_NewCipher (key e) of
                Some err \<Rightarrow> Inl (''failed to create cipher: '' @ err)
              | None \<Rightarrow>
                  if length data < NonceSize then Inl ''ciphertext too short''
                  else
                    (case aead_Open ext (key e) (take NonceSize data) (drop NonceSize data) of
                       None \<Rightarrow> Inl ''failed to decrypt: cipher: message authentication failed''
                     | Some plaintext \<Rightarrow> Inr plaintext))))"

section \<open>Record store (internal/repository)\<close>

text \<open>
  The errors of the repository: the sentinel \<^verbatim>\<open>ErrNotFound\<close>, the struct
  \<^verbatim>\<open>ErrOptimisticLock\<close> (the source fills in the customer identifier only), and the errors
  made by \<^verbatim>\<open>fmt.Errorf\<close>, kept by their text.
\<close>

datatype repo_error = ErrNotFound | ErrOptimisticLock UUID | Errorf string

fun repo_error_Error :: "repo_error \<Rightarrow> string" where
  "repo_error_Error ErrNotFound = ''record not found''"
| "repo_error_Error (ErrOptimisticLock customerID) = ''optimistic lock error''"
| "repo_error_Error (Errorf msg) = msg"

record pgCustomerRepository =
  encryptor :: Encryptor

subsection \<open>Customer operations\<close>

text \<open>
  A repository method that writes through its pointer argument returns the entity as the
  method left it, next to the error. \<^verbatim>\<open>INSERT\<close> names every column but \<^verbatim>\<open>updated_by\<close>.
\<close>

definition pg_CreateCustomer ::
  "externals \<Rightarrow> pgCustomerRepository \<Rightarrow> Customer \<Rightarrow> world \<Rightarrow> repo_error option \<times> Customer \<times> world" where
  "pg_CreateCustomer ext r customer w =
     (case (if c_ID customer = uuid_Nil
            then (case uuid_New w of (u, w') \<Rightarrow> (customer\<lparr>c_ID := u\<rparr>, w'))
            else (customer, w)) of
        (c0, w0) \<Rightarrow>
          (let c1 = c0\<lparr>c_CreatedAt := clock w0, c_UpdatedAt := clock w0, c_Version := 1\<rparr>
           in case Encrypt ext (encryptor r) (c_TaxID c1) w0 of
                (Inl err, w1) \<Rightarrow> (Some (Errorf (''failed to encrypt tax id: '' @ err)), c1, w1)
              | (Inr encryptedTaxID, w1) \<Rightarrow>
                  (case db_statement w1 of
                     (Some err, w2) \<Rightarrow>
                       (Some (Errorf (''failed to create customer: '' @ err)), c1, w2)
                   | (None, w2) \<Rightarrow>
                       (None, c1,
                        w2\<lparr>db := (db w2)\<lparr>customers := customers (db w2) @
                              [c1\<lparr>c_TaxID := encryptedTaxID, c_UpdatedBy := None\<rparr>]\<rparr>\<rparr>))))"

text \<open>Reading one selected row into a \<^verbatim>\<open>Customer\<close>: the tax identifier is decrypted.\<close>

definition scan_customer :: "externals \<Rightarrow> pgCustomerRepository \<Rightarrow> Customer \<Rightarrow> repo_error + Customer" where
  "scan_customer ext r row =
     (if c_TaxID row \<noteq> [] then
        (case Decrypt ext (encryptor r) (c_TaxID row) of
           Inl err \<Rightarrow> Inl (Errorf (''failed to decrypt tax id: '' @ err))
         | Inr decrypted \<Rightarrow> Inr (row\<lparr>c_TaxID := decrypted\<rparr>))
      else Inr row)"

definition pg_GetCustomerByID ::
  "externals \<Rightarrow> pgCustomerRepository \<Rightarrow> UUID \<Rightarrow> world \<Rightarrow> (repo_error + Customer) \<times> world" where
  "pg_GetCustomerByID ext r customerID w =
     (case db_statement w of
        (Some err, w1) \<Rightarrow> (Inl (Errorf (''failed to get customer: '' @ err)), w1)
      | (None, w1) \<Rightarrow>
          (case find (\<lambda>row. c_ID row = customerID) (customers (db w1)) of
             None \<Rightarrow> (Inl ErrNotFound, w1)
           | Some row \<Rightarrow> (scan_customer ext r row, w1)))"

text \<open>
  \<^verbatim>\<open>UPDATE customers SET ... WHERE id = $1 AND version = $14\<close>, with \<^verbatim>\<open>$14\<close> the
  incremented version minus one. The statement sets every column but \<^verbatim>\<open>id\<close>,
  \<^verbatim>\<open>created_at\<close> and \<^verbatim>\<open>created_by\<close>.
\<close>

definition customer_update_hits :: "Customer \<Rightarrow> Customer \<Rightarrow> bool" where
  "customer_update_hits customer row =
     (c_ID row = c_ID customer \<and> c_Version row = c_Version customer - 1)"

definition customer_updated_row :: "Customer \<Rightarrow> string \<Rightarrow> Customer \<Rightarrow> Customer" where
  "customer_updated_row customer encryptedTaxID row =
     customer\<lparr>c_ID := c_ID row, c_TaxID := encryptedTaxID,
              c_CreatedAt := c_CreatedAt row, c_CreatedBy := c_CreatedBy row\<rparr>"

definition pg_UpdateCustomer ::
  "externals \<Rightarrow> pgCustomerRepository \<Rightarrow> Customer \<Rightarrow> world \<Rightarrow> repo_error option \<times> Customer \<times> world" where
  "pg_UpdateCustomer ext r customer w =
     (let c1 = customer\<lparr>c_UpdatedAt := clock w, c_Version := c_Version customer + 1\<rparr>
      in case Encrypt ext (encryptor r) (c_TaxID c1) w of
           (Inl err, w1) \<Rightarrow> (Some (Errorf (''failed to encrypt tax id: '' @ err)), c1, w1)
         | (Inr encryptedTaxID, w1) \<Rightarrow>
             (case db_statement w1 of
                (Some err, w2) \<Rightarrow> (Some (Errorf (''failed to update customer: '' @ err)), c1, w2)
              | (None, w2) \<Rightarrow>
                  (let rowsAffected = length (filter (customer_update_hits c1) (customers (db w2)));
                       w3 = w2\<lparr>db := (db w2)\<lparr>customers :=
                              map (\<lambda>row. if customer_update_hits c1 row
                                          then customer_updated_row c1 encryptedTaxID row else row)
                                  (customers (db w2))\<rparr>\<rparr>
                   in if rowsAffected = 0 then (Some (ErrOptimisticLock (c_ID c1)), c1, w3)
                      else (None, c1, w3))))"

text \<open>
  The conjunctive filter of \<^verbatim>\<open>SearchCustomers\<close>, one condition for each filter field that
  is present.
\<close>

definition search_condition :: "externals \<Rightarrow> SearchFilters \<Rightarrow> Customer \<Rightarrow> bool" where
  "search_condition ext filters row =
     ((f_FirstName filters = [] \<or> ilike ext (c_FirstName row) (''%'' @ f_FirstName filters @ ''%'')) \<and>
      (f_LastName filters = [] \<or> ilike ext (c_LastName row) (''%'' @ f_LastName filters @ ''%'')) \<and>
      (f_Email filters = [] \<or> ilike ext (c_Email row) (''%'' @ f_Email filters @ ''%'')) \<and>
      (f_Phone filters = [] \<or> ilike ext (c_Phone row) (''%'' @ f_Phone filters @ ''%'')) \<and>
      (f_Status filters = [] \<or> c_Status row = f_Status filters) \<and>
      (case f_FromDate filters of None \<Rightarrow> True | Some d \<Rightarrow> d \<le> c_CreatedAt row) \<and>
      (case f_ToDate filters of None \<Rightarrow> True | Some d \<Rightarrow> c_CreatedAt row \<le> d))"

text \<open>The loop over \<^verbatim>\<open>rows.Next()\<close>: the first row that fails to decrypt ends the call.\<close>

fun scan_customers :: "externals \<Rightarrow> pgCustomerRepository \<Rightarrow> Customer list \<Rightarrow> repo_error + Customer list" where
  "scan_customers ext r [] = Inr []"
| "scan_customers ext r (row # rows) =
     (case scan_customer ext r row of
        Inl err \<Rightarrow> Inl err
      | Inr customer \<Rightarrow>
          (case scan_customers ext r rows of
             Inl err \<Rightarrow> Inl err
           | Inr others \<Rightarrow> Inr (customer # others)))"

text \<open>
  \<^verbatim>\<open>ORDER BY created_at DESC LIMIT l OFFSET o\<close>, with the limit 50 and the offset 0 unless
  the filters carry positive ones. SQL leaves the order of rows with equal keys open; the
  model keeps them in table order.
\<close>

definition effective_limit :: "SearchFilters \<Rightarrow> int" where
  "effective_limit filters = (if f_Limit filters > 0 then f_Limit filters else 50)"

definition effective_offset :: "SearchFilters \<Rightarrow> int" where
  "effective_offset filters = (if f_Offset filters > 0 then f_Offset filters else 0)"

definition pg_SearchCustomers ::
  "externals \<Rightarrow> pgCustomerRepository \<Rightarrow> SearchFilters \<Rightarrow> world \<Rightarrow> (repo_error + Customer list) \<times> world" where
  "pg_SearchCustomers ext r filters w =
     (let limit = effective_limit filters;
          offset = effective_offset filters
      in case db_statement w of
           (Some err, w1) \<Rightarrow> (Inl (Errorf (''failed to search customers: '' @ err)), w1)
         | (None, w1) \<Rightarrow>
             (scan_customers ext r
                (take (nat limit) (drop (nat offset)
                   (sort_key (\<lambda>row. - c_CreatedAt row)
                      (filter (search_condition ext filters) (customers (db w1)))))),
              w1))"

subsection \<open>Address operations\<close>

definition pg_AddAddress :: "Address \<Rightarrow> world \<Rightarrow> repo_error option \<times> Address \<times> world" where
  "pg_AddAddress address w =
     (case (if a_ID address = uuid_Nil
            then (case uuid_New w of (u, w') \<Rightarrow> (address\<lparr>a_ID := u\<rparr>, w'))
            else (address, w)) of
        (a0, w0) \<Rightarrow>
          (let a1 = a0\<lparr>a_CreatedAt := clock w0, a_UpdatedAt := clock w0\<rparr>
           in case db_statement w0 of
                (Some err, w1) \<Rightarrow> (Some (Errorf (''failed to add address: '' @ err)), a1, w1)
              | (None, w1) \<Rightarrow>
                  (None, a1, w1\<lparr>db := (db w1)\<lparr>addresses := addresses (db w1) @ [a1]\<rparr>\<rparr>)))"

text \<open>
  \<^verbatim>\<open>UPDATE addresses SET ... WHERE id = $1\<close> sets every column but \<^verbatim>\<open>id\<close>,
  \<^verbatim>\<open>customer_id\<close> and \<^verbatim>\<open>created_at\<close>; the number of rows affected is not looked at.
\<close>

definition address_updated_row :: "Address \<Rightarrow> Address \<Rightarrow> Address" where
  "address_updated_row address row =
     address\<lparr>a_ID := a_ID row, a_CustomerID := a_CustomerID row, a_CreatedAt := a_CreatedAt row\<rparr>"

definition pg_UpdateAddress :: "Address \<Rightarrow> world \<Rightarrow> repo_error option \<times> Address \<times> world" where
  "pg_UpdateAddress address w =
     (let a1 = address\<lparr>a_UpdatedAt := clock w\<rparr>
      in case db_statement w of
           (Some err, w1) \<Rightarrow> (Some (Errorf (''failed to update address: '' @ err)), a1, w1)
         | (None, w1) \<Rightarrow>
             (None, a1,
              w1\<lparr>db := (db w1)\<lparr>addresses :=
                    map (\<lambda>row. if a_ID row = a_ID a1 then address_updated_row a1 row else row)
                        (addresses (db w1))\<rparr>\<rparr>))"

text \<open>\<^verbatim>\<open>WHERE customer_id = $1 ORDER BY is_primary DESC, created_at DESC\<close>\<close>

definition pg_GetCustomerAddresses :: "UUID \<Rightarrow> world \<Rightarrow> (repo_error + Address list) \<times> world" where
  "pg_GetCustomerAddresses customerID w =
     (case db_statement w of
        (Some err, w1) \<Rightarrow> (Inl (Errorf (''failed to get addresses: '' @ err)), w1)
      | (None, w1) \<Rightarrow>
          (Inr (sort_key (\<lambda>row. if a_IsPrimary row then 0 else (1::nat))
                  (sort_key (\<lambda>row. - a_CreatedAt row)
                     (filter (\<lambda>row. a_CustomerID row = customerID) (addresses (db w1))))),
           w1))"

subsection \<open>Document operations\<close>

definition pg_AddDocument ::
  "externals \<Rightarrow> pgCustomerRepository \<Rightarrow> CustomerDocument \<Rightarrow> world \<Rightarrow>
     repo_error option \<times> CustomerDocument \<times> world" where
  "pg_AddDocument ext r doc w =
     (case (if d_ID doc = uuid_Nil
            then (case uuid_New w of (u, w') \<Rightarrow> (doc\<lparr>d_ID := u\<rparr>, w'))
            else (doc, w)) of
        (d0, w0) \<Rightarrow>
          (let d1 = d0\<lparr>d_CreatedAt := clock w0, d_UpdatedAt := clock w0\<rparr>
           in case Encrypt ext (encryptor r) (d_DocumentNumber d1) w0 of
                (Inl err, w1) \<Rightarrow>
                  (Some (Errorf (''failed to encrypt document number: '' @ err)), d1, w1)
              | (Inr encryptedDocNumber, w1) \<Rightarrow>
                  (case db_statement w1 of
                     (Some err, w2) \<Rightarrow> (Some (Errorf (''failed to add document: '' @ err)), d1, w2)
                   | (None, w2) \<Rightarrow>
                       (None, d1,
                        w2\<lparr>db := (db w2)\<lparr>customer_documents := customer_documents (db w2) @
                              [d1\<lparr>d_DocumentNumber := encryptedDocNumber\<rparr>]\<rparr>\<rparr>))))"

definition scan_document ::
  "externals \<Rightarrow> pgCustomerRepository \<Rightarrow> CustomerDocument \<Rightarrow> repo_error + CustomerDocument" where
  "scan_document ext r row =
     (if d_DocumentNumber row \<noteq> [] then
        (case Decrypt ext (encryptor r) (d_DocumentNumber row) of
           Inl err \<Rightarrow> Inl (Errorf (''failed to decrypt document number: '' @ err))
         | Inr decrypted \<Rightarrow> Inr (row\<lparr>d_DocumentNumber := decrypted\<rparr>))
      else Inr row)"

fun scan_documents ::
  "externals \<Rightarrow> pgCustomerRepository \<Rightarrow> CustomerDocument list \<Rightarrow> repo_error + CustomerDocument list" where
  "scan_documents ext r [] = Inr []"
| "scan_documents ext r (row # rows) =
     (case scan_document ext r row of
        Inl err \<Rightarrow> Inl err
      | Inr doc \<Rightarrow>
          (case scan_documents ext r rows of
             Inl err \<Rightarrow> Inl err
           | Inr others \<Rightarrow> Inr (doc # others)))"

text \<open>\<^verbatim>\<open>WHERE customer_id = $1 ORDER BY created_at DESC\<close>\<close>

definition pg_GetCustomerDocuments ::
  "externals \<Rightarrow> pgCustomerRepository \<Rightarrow> UUID \<Rightarrow> world \<Rightarrow> (repo_error + CustomerDocument list) \<times> world" where
  "pg_GetCustomerDocuments ext r customerID w =
     (case db_statement w of
        (Some err, w1) \<Rightarrow> (Inl (Errorf (''failed to get documents: '' @ err)), w1)
      | (None, w1) \<Rightarrow>
          (scan_documents ext r
             (sort_key (\<lambda>row. - d_CreatedAt row)
                (filter (\<lambda>row. d_CustomerID row = customerID) (customer_documents (db w1)))),
           w1))"

section \<open>Orchestrator (internal/service/customer_service.go)\<close>

text \<open>
  A method returns a response or a gRPC status error (\<^verbatim>\<open>status.Errorf(code, ...)\<close>): a
  code and a message. The service is wired to the PostgreSQL repository (\<open>repo\<close>); the
  validator it holds has no state.
\<close>

datatype Code = OK | InvalidArgument | NotFound | Aborted | FailedPrecondition | Internal

type_synonym status_error = "Code \<times> string"

record CustomerService =
  repo :: pgCustomerRepository

subsection \<open>Helper functions\<close>

definition stringPtr :: "string \<Rightarrow> string option" where
  "stringPtr s = (if s = [] then None else Some s)"

text \<open>\<^verbatim>\<open>AsTime\<close> of a timestamp message; of an absent one it is the Unix epoch.\<close>

definition AsTime :: "time option \<Rightarrow> time" where
  "AsTime ts = (case ts of None \<Rightarrow> 0 | Some t \<Rightarrow> t)"

definition modelToProto :: "externals \<Rightarrow> Customer \<Rightarrow> pb_Customer" where
  "modelToProto ext c =
     \<lparr>pc_Id = uuid_String ext (c_ID c),
      pc_CustomerNumber = c_CustomerNumber c,
      pc_FirstName = c_FirstName c,
      pc_MiddleName = (case c_MiddleName c of None \<Rightarrow> [] | Some m \<Rightarrow> m),
      pc_LastName = c_LastName c,
      pc_DateOfBirth = (if \<not> time_IsZero (c_DateOfBirth c) then Some (c_DateOfBirth c) else None),
      pc_Email = c_Email c,
      pc_Phone = c_Phone c,
      pc_Status = c_Status c,
      pc_CreatedAt = Some (c_CreatedAt c),
      pc_UpdatedAt = Some (c_UpdatedAt c),
      pc_CreatedBy = uuid_String ext (c_CreatedBy c),
      pc_UpdatedBy = (case c_UpdatedBy c of None \<Rightarrow> [] | Some u \<Rightarrow> uuid_String ext u),
      pc_Version = ucast (c_Version c)\<rparr>"

definition addressModelToProto :: "externals \<Rightarrow> Address \<Rightarrow> pb_Address" where
  "addressModelToProto ext a =
     \<lparr>pa_Id = uuid_String ext (a_ID a),
      pa_CustomerId = uuid_String ext (a_CustomerID a),
      pa_AddressType = a_AddressType a,
      pa_Street1 = a_Street1 a,
      pa_Street2 = (case a_Street2 a of None \<Rightarrow> [] | Some s2 \<Rightarrow> s2),
      pa_City = a_City a,
      pa_State = a_State a,
      pa_PostalCode = a_PostalCode a,
      pa_Country = a_Country a,
      pa_IsPrimary = a_IsPrimary a,
      pa_ValidFrom = Some (a_ValidFrom a),
      pa_ValidTo = a_ValidTo a,
      pa_CreatedAt = Some (a_CreatedAt a),
      pa_UpdatedAt = Some (a_UpdatedAt a)\<rparr>"

definition documentModelToProto :: "externals \<Rightarrow> CustomerDocument \<Rightarrow> pb_Document" where
  "documentModelToProto ext d =
     \<lparr>pd_Id = uuid_String ext (d_ID d),
      pd_CustomerId = uuid_String ext (d_CustomerID d),
      pd_DocumentType = d_DocumentType d,
      pd_DocumentNumber = d_DocumentNumber d,
      pd_IssuingAuthority = d_IssuingAuthority d,
      pd_IssuingCountry = d_IssuingCountry d,
      pd_VerificationStatus = d_VerificationStatus d,
      pd_IssueDate = Some (d_IssueDate d),
      pd_ExpiryDate = Some (d_ExpiryDate d),
      pd_CreatedAt = Some (d_CreatedAt d),
      pd_UpdatedAt = Some (d_UpdatedAt d),
      pd_VerifiedAt = d_VerifiedAt d,
      pd_VerifiedBy = (case d_VerifiedBy d of None \<Rightarrow> [] | Some u \<Rightarrow> uuid_String ext u)\<rparr>"

definition statusChangeModelToProto :: "externals \<Rightarrow> StatusChange \<Rightarrow> pb_StatusChange" where
  "statusChangeModelToProto ext sc =
     \<lparr>ps_Id = uuid_String ext (sch_ID sc),
      ps_CustomerId = uuid_String ext (sch_CustomerID sc),
      ps_PreviousStatus = sch_PreviousStatus sc,
      ps_NewStatus = sch_NewStatus sc,
      ps_Reason = sch_Reason sc,
      ps_ChangedBy = uuid_String ext (sch_ChangedBy sc),
      ps_ChangedAt = Some (sch_ChangedAt sc)\<rparr>"

definition generateCustomerNumber :: "world \<Rightarrow> string" where
  "generateCustomerNumber w = ''CUST-'' @ decimal_int (clock w)"

definition isIdentityDocument :: "DocumentType \<Rightarrow> bool" where
  "isIdentityDocument docType =
     (docType = DocumentTypePassport \<or> docType = DocumentTypeDriversLicense \<or>
      docType = DocumentTypeNationalID \<or> docType = DocumentTypeSSN)"

text \<open>
  The answer to a failed \<^verbatim>\<open>GetCustomerByID\<close>, the same in every method that loads the
  customer first.
\<close>

definition get_customer_failed :: "repo_error \<Rightarrow> status_error" where
  "get_customer_failed err =
     (if err = ErrNotFound then (NotFound, ''customer not found'')
      else (Internal, ''failed to get customer: '' @ repo_error_Error err))"

subsection \<open>CreateCustomer\<close>

definition CreateCustomer ::
  "externals \<Rightarrow> CustomerService \<Rightarrow> CreateCustomerRequest \<Rightarrow> world \<Rightarrow> (status_error + pb_Customer) \<times> world" where
  "CreateCustomer ext s req w =
     (let errs = ValidateCustomerCreate (clock w) req
      in if length errs > 0 then (Inl (InvalidArgument, ValidationErrors_Error errs), w)
         else
           (let customerNumber = generateCustomerNumber w
            in case (if cc_CreatedBy req \<noteq> [] then uuid_Parse ext (cc_CreatedBy req)
                     else Inr uuid_Nil) of
                 Inl err \<Rightarrow> (Inl (InvalidArgument, ''invalid created_by UUID: '' @ err), w)
               | Inr createdByUUID \<Rightarrow>
                   (case uuid_New w of
                      (newID, w1) \<Rightarrow>
                        (let customer =
                               \<lparr>c_ID = newID,
                                c_CustomerNumber = customerNumber,
                                c_FirstName = cc_FirstName req,
                                c_MiddleName = stringPtr (cc_MiddleName req),
                                c_LastName = cc_LastName req,
                                c_DateOfBirth = AsTime (cc_DateOfBirth req),
                                c_TaxID = cc_TaxId req,
                                c_Email = cc_Email req,
                                c_Phone = cc_Phone req,
                                c_Status = CustomerStatusPending,
                                c_CreatedAt = zero_time,
                                c_UpdatedAt = zero_time,
                                c_CreatedBy = createdByUUID,
                                c_UpdatedBy = None,
                                c_Version = 0\<rparr>
                         in case pg_CreateCustomer ext (repo s) customer w1 of
                              (Some err, created, w2) \<Rightarrow>
                                (Inl (Internal, ''failed to create customer: '' @ repo_error_Error err),
                                 w2)
                            | (None, created, w2) \<Rightarrow> (Inr (modelToProto ext created), w2)))))"

subsection \<open>UpdateCustomer\<close>

text \<open>The fields of the request that are present replace those of the loaded customer.\<close>

definition apply_update_fields :: "UpdateCustomerRequest \<Rightarrow> Customer \<Rightarrow> Customer" where
  "apply_update_fields req customer =
     (let c1 = (if uc_FirstName req \<noteq> [] then customer\<lparr>c_FirstName := uc_FirstName req\<rparr>
                else customer);
          c2 = (if uc_MiddleName req \<noteq> [] then c1\<lparr>c_MiddleName := stringPtr (uc_MiddleName req)\<rparr>
                else c1);
          c3 = (if uc_LastName req \<noteq> [] then c2\<lparr>c_LastName := uc_LastName req\<rparr> else c2);
          c4 = (case uc_DateOfBirth req of
                  Some dob \<Rightarrow> c3\<lparr>c_DateOfBirth := dob\<rparr>
                | None \<Rightarrow> c3);
          c5 = (if uc_TaxId req \<noteq> [] then c4\<lparr>c_TaxID := uc_TaxId req\<rparr> else c4);
          c6 = (if uc_Email req \<noteq> [] then c5\<lparr>c_Email := uc_Email req\<rparr> else c5)
      in if uc_Phone req \<noteq> [] then c6\<lparr>c_Phone := uc_Phone req\<rparr> else c6)"

definition UpdateCustomer ::
  "externals \<Rightarrow> CustomerService \<Rightarrow> UpdateCustomerRequest \<Rightarrow> world \<Rightarrow> (status_error + pb_Customer) \<times> world" where
  "UpdateCustomer ext s req w =
     (let errs = ValidateCustomerUpdate (clock w) req
      in if length errs > 0 then (Inl (InvalidArgument, ValidationErrors_Error errs), w)
         else
           (case uuid_Parse ext (uc_Id req) of
              Inl err \<Rightarrow> (Inl (InvalidArgument, ''invalid customer id: '' @ err), w)
            | Inr customerID \<Rightarrow>
                (case pg_GetCustomerByID ext (repo s) customerID w of
                   (Inl err, w1) \<Rightarrow> (Inl (get_customer_failed err), w1)
                 | (Inr loaded, w1) \<Rightarrow>
                     (let customer = apply_update_fields req loaded
                      in case (if uc_UpdatedBy req \<noteq> [] then
                                 (case uuid_Parse ext (uc_UpdatedBy req) of
                                    Inl err \<Rightarrow> Inl err
                                  | Inr updatedByUUID \<Rightarrow>
                                      Inr (customer\<lparr>c_UpdatedBy := Some updatedByUUID\<rparr>))
                               else Inr customer) of
                           Inl err \<Rightarrow>
                             (Inl (InvalidArgument, ''invalid updated_by UUID: '' @ err), w1)
                         | Inr customer' \<Rightarrow>
                             (case pg_UpdateCustomer ext (repo s) customer' w1 of
                                (Some err, updated, w2) \<Rightarrow>
                                  (case err of
                                     ErrOptimisticLock customerID' \<Rightarrow>
                                       (Inl (Aborted, ''customer was modified by another process''),
                                        w2)
                                   | _ \<Rightarrow>
                                       (Inl (Internal,
                                             ''failed to update customer: '' @ repo_error_Error err),
                                        w2))
                              | (None, updated, w2) \<Rightarrow> (Inr (modelToProto ext updated), w2))))))"

subsection \<open>SearchCustomers\<close>

text \<open>The \<^verbatim>\<open>models.SearchFilters\<close> literal the method builds from the request.\<close>

definition build_filters :: "SearchCustomersRequest \<Rightarrow> SearchFilters" where
  "build_filters req =
     \<lparr>f_FirstName = sc_FirstName req,
      f_LastName = sc_LastName req,
      f_Email = sc_Email req,
      f_Phone = sc_Phone req,
      f_Status = sc_Status req,
      f_FromDate = sc_FromDate req,
      f_ToDate = sc_ToDate req,
      f_Limit = sint (sc_Limit req),
      f_Offset = sint (sc_Offset req)\<rparr>"

definition SearchCustomers ::
  "externals \<Rightarrow> CustomerService \<Rightarrow> SearchCustomersRequest \<Rightarrow> world \<Rightarrow>
     (status_error + SearchCustomersResponse) \<times> world" where
  "SearchCustomers ext s req w =
     (let errs = ValidateSearchFilters req
      in if length errs > 0 then (Inl (InvalidArgument, ValidationErrors_Error errs), w)
         else
           (let filters = build_filters req
            in case pg_SearchCustomers ext (repo s) filters w of
                 (Inl err, w1) \<Rightarrow>
                   (Inl (Internal, ''failed to search customers: '' @ repo_error_Error err), w1)
               | (Inr found, w1) \<Rightarrow>
                   (let protoCustomers = map (modelToProto ext) found
                    in (Inr \<lparr>Customers = protoCustomers, Total = of_nat (length protoCustomers)\<rparr>,
                        w1))))"

subsection \<open>AddAddress\<close>

text \<open>
  The loop that unsets the primary flag of every address read, one \<^verbatim>\<open>UpdateAddress\<close>
  each; the first failure ends it.
\<close>

fun unset_primaries :: "Address list \<Rightarrow> world \<Rightarrow> repo_error option \<times> world" where
  "unset_primaries [] w = (None, w)"
| "unset_primaries (addr # rest) w =
     (if a_IsPrimary addr then
        (case pg_UpdateAddress (addr\<lparr>a_IsPrimary := False\<rparr>) w of
           (Some err, written, w') \<Rightarrow> (Some err, w')
         | (None, written, w') \<Rightarrow> unset_primaries rest w')
      else unset_primaries rest w)"

text \<open>The \<^verbatim>\<open>models.Address\<close> literal the method builds.\<close>

definition new_address :: "AddAddressRequest \<Rightarrow> UUID \<Rightarrow> UUID \<Rightarrow> bool \<Rightarrow> time \<Rightarrow> Address" where
  "new_address req customerID newID isPrimary now =
     \<lparr>a_ID = newID,
      a_CustomerID = customerID,
      a_AddressType = aa_AddressType req,
      a_Street1 = aa_Street1 req,
      a_Street2 = stringPtr (aa_Street2 req),
      a_City = aa_City req,
      a_State = aa_State req,
      a_PostalCode = aa_PostalCode req,
      a_Country = aa_Country req,
      a_IsPrimary = isPrimary,
      a_ValidFrom = (case aa_ValidFrom req of None \<Rightarrow> now | Some t \<Rightarrow> t),
      a_ValidTo = aa_ValidTo req,
      a_CreatedAt = zero_time,
      a_UpdatedAt = zero_time\<rparr>"

text \<open>
  The primary-address logic between loading the addresses and building the new one: with
  the flag set in the request every primary address read is unset; without it the new
  address becomes primary when none of those read is. The result is the flag the new
  address gets.
\<close>

definition settle_primary ::
  "AddAddressRequest \<Rightarrow> Address list \<Rightarrow> world \<Rightarrow> (repo_error + bool) \<times> world" where
  "settle_primary req existing w =
     (if aa_IsPrimary req then
        (case unset_primaries existing w of
           (Some err, w') \<Rightarrow> (Inl err, w')
         | (None, w') \<Rightarrow> (Inr True, w'))
      else (Inr (\<not> list_ex a_IsPrimary existing), w))"

definition AddAddress ::
  "externals \<Rightarrow> CustomerService \<Rightarrow> AddAddressRequest \<Rightarrow> world \<Rightarrow> (status_error + pb_Address) \<times> world" where
  "AddAddress ext s req w =
     (let errs = ValidateAddress req
      in if length errs > 0 then (Inl (InvalidArgument, ValidationErrors_Error errs), w)
         else
           (case uuid_Parse ext (aa_CustomerId req) of
              Inl err \<Rightarrow> (Inl (InvalidArgument, ''invalid customer id: '' @ err), w)
            | Inr customerID \<Rightarrow>
                (case pg_GetCustomerByID ext (repo s) customerID w of
                   (Inl err, w1) \<Rightarrow> (Inl (get_customer_failed err), w1)
                 | (Inr loaded, w1) \<Rightarrow>
                     (case pg_GetCustomerAddresses customerID w1 of
                        (Inl err, w2) \<Rightarrow>
                          (Inl (Internal, ''failed to get addresses: '' @ repo_error_Error err), w2)
                      | (Inr existing, w2) \<Rightarrow>
                          (case settle_primary req existing w2 of
                             (Inl err, w3) \<Rightarrow>
                               (Inl (Internal,
                                     ''failed to update existing primary address: '' @
                                       repo_error_Error err),
                                w3)
                           | (Inr isPrimary, w3) \<Rightarrow>
                               (case uuid_New w3 of
                                  (newID, w4) \<Rightarrow>
                                    (case pg_AddAddress
                                            (new_address req customerID newID isPrimary (clock w4))
                                            w4 of
                                       (Some err, added, w5) \<Rightarrow>
                                         (Inl (Internal,
                                               ''failed to add address: '' @ repo_error_Error err),
                                          w5)
                                     | (None, added, w5) \<Rightarrow>
                                         (Inr (addressModelToProto ext added), w5))))))))"

subsection \<open>AddDocument\<close>

definition hasVerifiedIdentity :: "CustomerDocument list \<Rightarrow> bool" where
  "hasVerifiedIdentity docs =
     list_ex (\<lambda>d. isIdentityDocument (d_DocumentType d) \<and>
                  d_VerificationStatus d = VerificationStatusVerified) docs"

text \<open>
  The \<^verbatim>\<open>models.CustomerDocument\<close> literal the method builds: the verification status
  is \<^verbatim>\<open>VerificationStatusPending\<close>, whatever the request.
\<close>

definition new_document :: "AddDocumentRequest \<Rightarrow> UUID \<Rightarrow> UUID \<Rightarrow> CustomerDocument" where
  "new_document req customerID newID =
     \<lparr>d_ID = newID,
      d_CustomerID = customerID,
      d_DocumentType = ad_DocumentType req,
      d_DocumentNumber = ad_DocumentNumber req,
      d_IssuingAuthority = ad_IssuingAuthority req,
      d_IssuingCountry = ad_IssuingCountry req,
      d_IssueDate = AsTime (ad_IssueDate req),
      d_ExpiryDate = AsTime (ad_ExpiryDate req),
      d_VerificationStatus = VerificationStatusPending,
      d_VerifiedAt = None,
      d_VerifiedBy = None,
      d_CreatedAt = zero_time,
      d_UpdatedAt = zero_time\<rparr>"

text \<open>
  The check after the document is saved: a customer whose status was \<^verbatim>\<open>Pending\<close> when
  loaded is activated if the documents now on file hold a verified identity document. The
  result is the error of the step that failed, if one did.
\<close>

definition activate_if_verified ::
  "externals \<Rightarrow> CustomerService \<Rightarrow> UUID \<Rightarrow> Customer \<Rightarrow> world \<Rightarrow> status_error option \<times> world" where
  "activate_if_verified ext s customerID customer w =
     (if c_Status customer = CustomerStatusPending then
        (case pg_GetCustomerDocuments ext (repo s) customerID w of
           (Inl err, w1) \<Rightarrow>
             (Some (Internal, ''failed to get documents: '' @ repo_error_Error err), w1)
         | (Inr docs, w1) \<Rightarrow>
             (if hasVerifiedIdentity docs then
                (case pg_UpdateCustomer ext (repo s)
                        (customer\<lparr>c_Status := CustomerStatusActive\<rparr>) w1 of
                   (Some err, activated, w2) \<Rightarrow>
                     (Some (Internal,
                            ''failed to update customer status: '' @ repo_error_Error err),
                      w2)
                 | (None, activated, w2) \<Rightarrow> (None, w2))
              else (None, w1)))
      else (None, w))"

definition AddDocument ::
  "externals \<Rightarrow> CustomerService \<Rightarrow> AddDocumentRequest \<Rightarrow> world \<Rightarrow> (status_error + pb_Document) \<times> world" where
  "AddDocument ext s req w =
     (let errs = ValidateDocument (clock w) req
      in if length errs > 0 then (Inl (InvalidArgument, ValidationErrors_Error errs), w)
         else
           (case uuid_Parse ext (ad_CustomerId req) of
              Inl err \<Rightarrow> (Inl (InvalidArgument, ''invalid customer id: '' @ err), w)
            | Inr customerID \<Rightarrow>
                (case pg_GetCustomerByID ext (repo s) customerID w of
                   (Inl err, w1) \<Rightarrow> (Inl (get_customer_failed err), w1)
                 | (Inr customer, w1) \<Rightarrow>
                     (case uuid_New w1 of
                        (newID, w2) \<Rightarrow>
                          (case pg_AddDocument ext (repo s) (new_document req customerID newID) w2 of
                             (Some err, added, w3) \<Rightarrow>
                               (Inl (Internal, ''failed to add document: '' @ repo_error_Error err),
                                w3)
                           | (None, added, w3) \<Rightarrow>
                               (case activate_if_verified ext s customerID customer w3 of
                                  (Some failure, w4) \<Rightarrow> (Inl failure, w4)
                                | (None, w4) \<Rightarrow>
                                    (Inr (documentModelToProto ext added), w4)))))))"

subsection \<open>UpdateCustomerStatus\<close>

definition UpdateCustomerStatus ::
  "externals \<Rightarrow> CustomerService \<Rightarrow> UpdateCustomerStatusRequest \<Rightarrow> world \<Rightarrow>
     (status_error + UpdateCustomerStatusResponse) \<times> world" where
  "UpdateCustomerStatus ext s req w =
     (if us_Id req = [] then (Inl (InvalidArgument, ''id is required''), w)
      else if us_NewStatus req = [] then (Inl (InvalidArgument, ''new_status is required''), w)
      else if us_Reason req = [] then (Inl (InvalidArgument, ''reason is required''), w)
      else
        (case uuid_Parse ext (us_Id req) of
           Inl err \<Rightarrow> (Inl (InvalidArgument, ''invalid customer id: '' @ err), w)
         | Inr customerID \<Rightarrow>
             (case pg_GetCustomerByID ext (repo s) customerID w of
                (Inl err, w1) \<Rightarrow> (Inl (get_customer_failed err), w1)
              | (Inr customer, w1) \<Rightarrow>
                  (let currentStatus = c_Status customer;
                       newStatus = us_NewStatus req
                   in case ValidateStatusTransition currentStatus newStatus of
                        Some err \<Rightarrow> (Inl (FailedPrecondition, err), w1)
                      | None \<Rightarrow>
                          (let previousStatus = c_Status customer;
                               customer1 = customer\<lparr>c_Status := newStatus\<rparr>
                           in case (if us_ChangedBy req \<noteq> [] then
                                      (case uuid_Parse ext (us_ChangedBy req) of
                                         Inl err \<Rightarrow> Inl err
                                       | Inr u \<Rightarrow> Inr (u, customer1\<lparr>c_UpdatedBy := Some u\<rparr>))
                                    else Inr (uuid_Nil, customer1)) of
                                Inl err \<Rightarrow>
                                  (Inl (InvalidArgument, ''invalid changed_by UUID: '' @ err), w1)
                              | Inr (changedByUUID, customer2) \<Rightarrow>
                                  (case pg_UpdateCustomer ext (repo s) customer2 w1 of
                                     (Some err, updated, w2) \<Rightarrow>
                                       (Inl (Internal,
                                             ''failed to update customer status: '' @
                                               repo_error_Error err),
                                        w2)
                                   | (None, updated, w2) \<Rightarrow>
                                       (case uuid_New w2 of
                                          (newID, w3) \<Rightarrow>
                                            (let statusChange =
                                                   \<lparr>sch_ID = newID,
                                                    sch_CustomerID = customerID,
                                                    sch_PreviousStatus = previousStatus,
                                                    sch_NewStatus = newStatus,
                                                    sch_Reason = us_Reason req,
                                                    sch_ChangedBy = changedByUUID,
                                                    sch_ChangedAt = clock w3\<rparr>;
                                                 w4 = w3\<lparr>stdout := stdout w3 @
                                                        [''Status change: '' @ previousStatus @
                                                         '' -> '' @ newStatus @ '', Reason: '' @
                                                         us_Reason req]\<rparr>
                                             in (Inr \<lparr>usr_Customer = modelToProto ext updated,
                                                      usr_StatusChange =
                                                        statusChangeModelToProto ext statusChange\<rparr>,
                                                 w4)))))))))"

section \<open>Sample collaborators and sample data\<close>

text \<open>
  Concrete values for running the model on examples. The stand-ins below take the place of
  the external libraries in those runs only; every general theorem is about arbitrary
  \<^typ>\<open>externals\<close>. \<open>sample_Seal\<close> appends a 16-byte tag made from key and nonce to the
  reversed text, and \<open>sample_Open\<close> checks and strips it. \<open>canonical_Parse\<close> reads the
  36-character form \<^verbatim>\<open>xxxxxxxx-xxxx-xxxx-xxxx-xxxxxxxxxxxx\<close> of an identifier and
  \<open>canonical_String\<close> prints it. \<open>sample_ilike\<close> matches a pattern with \<^verbatim>\<open>%\<close> and \<^verbatim>\<open>_\<close>
  without regard to the case of ASCII letters.
\<close>

definition sample_Seal :: "string \<Rightarrow> string \<Rightarrow> string \<Rightarrow> string" where
  "sample_Seal k nonce plaintext = rev plaintext @ take 16 (k @ nonce)"

definition sample_Open :: "string \<Rightarrow> string \<Rightarrow> string \<Rightarrow> string option" where
  "sample_Open k nonce sealed =
     (let n = length sealed - 16
      in if 16 \<le> length sealed \<and> drop n sealed = take 16 (k @ nonce)
         then Some (rev (take n sealed)) else None)"

definition hex_digit_val :: "char \<Rightarrow> nat option" where
  "hex_digit_val c =
     (case index_of c ''0123456789abcdef'' of
        Some v \<Rightarrow> Some v
      | None \<Rightarrow> map_option (\<lambda>v. v + 10) (index_of c ''ABCDEF''))"

fun hex_value :: "string \<Rightarrow> nat \<Rightarrow> nat option" where
  "hex_value [] acc = Some acc"
| "hex_value (c # cs) acc =
     (case hex_digit_val c of None \<Rightarrow> None | Some v \<Rightarrow> hex_value cs (acc * 16 + v))"

definition canonical_Parse :: "string \<Rightarrow> string + UUID" where
  "canonical_Parse s =
     (if length s \<noteq> 36 then Inl (''invalid UUID length: '' @ decimal (length s))
      else if s ! 8 \<noteq> CHR ''-'' \<or> s ! 13 \<noteq> CHR ''-'' \<or> s ! 18 \<noteq> CHR ''-'' \<or> s ! 23 \<noteq> CHR ''-''
      then Inl ''invalid UUID format''
      else
        (case hex_value (take 8 s @ take 4 (drop 9 s) @ take 4 (drop 14 s) @
                         take 4 (drop 19 s) @ drop 24 s) 0 of
           None \<Rightarrow> Inl ''invalid UUID format''
         | Some n \<Rightarrow> Inr (of_nat n)))"

text \<open>The lowest \<open>n\<close> hexadecimal digits of a number.\<close>

fun hex_digits :: "nat \<Rightarrow> nat \<Rightarrow> string" where
  "hex_digits 0 v = []"
| "hex_digits (Suc n) v = hex_digits n (v div 16) @ [''0123456789abcdef'' ! (v mod 16)]"

definition canonical_String :: "UUID \<Rightarrow> string" where
  "canonical_String u =
     (let h = hex_digits 32 (unat u)
      in take 8 h @ ''-'' @ take 4 (drop 8 h) @ ''-'' @ take 4 (drop 12 h) @ ''-'' @
         take 4 (drop 16 h) @ ''-'' @ drop 20 h)"

definition fold_case :: "char \<Rightarrow> char" where
  "fold_case c = (if is_upper c then char_of (of_char c + (32::nat)) else c)"

fun like :: "string \<Rightarrow> string \<Rightarrow> bool" where
  "like [] v = (v = [])"
| "like (p # ps) v =
     (if p = CHR ''%'' then list_ex (\<lambda>k. like ps (drop k v)) [0 ..< Suc (length v)]
      else (case v of
              [] \<Rightarrow> False
            | c # cs \<Rightarrow> (p = CHR ''_'' \<or> fold_case p = fold_case c) \<and> like ps cs))"

definition sample_ilike :: "string \<Rightarrow> string \<Rightarrow> bool" where
  "sample_ilike v pattern = like pattern v"

definition sample_ext :: externals where
  "sample_ext =
     \<lparr>aead_Seal = sample_Seal, aead_Open = sample_Open,
      uuid_Parse = canonical_Parse, uuid_String = canonical_String,
      ilike = sample_ilike\<rparr>"

text \<open>The key of the repository's tests, and a service built on it.\<close>

definition sample_key :: string where
  "sample_key = ''12345678901234567890123456789012''"

definition sample_service :: CustomerService where
  "sample_service = \<lparr>repo = \<lparr>encryptor = \<lparr>key = sample_key\<rparr>\<rparr>\<rparr>"

definition empty_database :: database where
  "empty_database = \<lparr>customers = [], addresses = [], customer_documents = []\<rparr>"

text \<open>
  A quiet world: no rows, nothing scheduled, the clock at 2023-11-14 22:13:20 UTC, 32 bytes
  of randomness left.
\<close>

definition sample_world :: world where
  "sample_world =
     \<lparr>db = empty_database,
      schedule = [],
      clock = 1700000000000000000,
      rand_Reader = ''0123456789abcdefghijklmnopqrstuv'',
      fresh_uuids = (\<lambda>n. of_nat n + 4096),
      uuid_count = 0,
      stdout = []\<rparr>"

text \<open>
  A customer as \<^verbatim>\<open>CreateCustomer\<close> stores one when no tax identifier and no creator are
  given (born 1990-01-01, identifier \<^verbatim>\<open>00000000-0000-0000-0000-000000000007\<close>), and a
  world whose store holds that row only.
\<close>

definition ada :: Customer where
  "ada =
     \<lparr>c_ID = 7,
      c_CustomerNumber = ''CUST-1699999999000000000'',
      c_FirstName = ''Ada'',
      c_MiddleName = None,
      c_LastName = ''Lovelace'',
      c_DateOfBirth = 631152000000000000,
      c_TaxID = [],
      c_Email = ''ada@example.com'',
      c_Phone = [],
      c_Status = ''Pending'',
      c_CreatedAt = 1699999999000000000,
      c_UpdatedAt = 1699999999000000000,
      c_CreatedBy = 0,
      c_UpdatedBy = None,
      c_Version = 1\<rparr>"

definition ada_id :: string where
  "ada_id = ''00000000-0000-0000-0000-000000000007''"

definition ada_world :: world where
  "ada_world = sample_world\<lparr>db := empty_database\<lparr>customers := [ada]\<rparr>\<rparr>"

text \<open>
  The update of the specification's example: the caller read version 1 and changes the
  email address.
\<close>

definition email_update :: UpdateCustomerRequest where
  "email_update =
     \<lparr>uc_Id = ada_id, uc_Version = 1, uc_FirstName = [], uc_MiddleName = [],
      uc_LastName = [], uc_DateOfBirth = None, uc_TaxId = [],
      uc_Email = ''ada.l@example.com'', uc_Phone = [], uc_UpdatedBy = []\<rparr>"

text \<open>
  A second customer, a store holding both, and a search for the first page of one row,
  with no filter set.
\<close>

definition grace :: Customer where
  "grace =
     \<lparr>c_ID = 8,
      c_CustomerNumber = ''CUST-1699999998000000000'',
      c_FirstName = ''Grace'',
      c_MiddleName = None,
      c_LastName = ''Hopper'',
      c_DateOfBirth = 0,
      c_TaxID = [],
      c_Email = ''grace@example.com'',
      c_Phone = [],
      c_Status = ''Active'',
      c_CreatedAt = 1699999998000000000,
      c_UpdatedAt = 1699999998000000000,
      c_CreatedBy = 0,
      c_UpdatedBy = None,
      c_Version = 1\<rparr>"

definition two_customers_world :: world where
  "two_customers_world = sample_world\<lparr>db := empty_database\<lparr>customers := [ada, grace]\<rparr>\<rparr>"

definition first_page_of_one :: SearchCustomersRequest where
  "first_page_of_one =
     \<lparr>sc_FirstName = [], sc_LastName = [], sc_Email = [], sc_Phone = [], sc_Status = [],
      sc_Limit = 1, sc_Offset = 0, sc_FromDate = None, sc_ToDate = None\<rparr>"

text \<open>
  Addresses: the request for a first address that leaves the primary flag unset, a store
  where the customer already has a primary address, and the request for a second address
  with the flag set.
\<close>

definition home_request :: AddAddressRequest where
  "home_request =
     \<lparr>aa_CustomerId = ada_id, aa_AddressType = ''Physical'',
      aa_Street1 = ''12 St James Square'', aa_Street2 = [], aa_City = ''London'',
      aa_State = ''London'', aa_PostalCode = ''SW1Y 4JH'', aa_Country = ''GB'',
      aa_IsPrimary = False, aa_ValidFrom = None, aa_ValidTo = None\<rparr>"

definition ada_home :: Address where
  "ada_home =
     \<lparr>a_ID = 16, a_CustomerID = 7, a_AddressType = ''Physical'',
      a_Street1 = ''12 St James Square'', a_Street2 = None, a_City = ''London'',
      a_State = ''London'', a_PostalCode = ''SW1Y 4JH'', a_Country = ''GB'',
      a_IsPrimary = True, a_ValidFrom = 1699999999000000000, a_ValidTo = None,
      a_CreatedAt = 1699999999000000000, a_UpdatedAt = 1699999999000000000\<rparr>"

definition housed_world :: world where
  "housed_world = sample_world\<lparr>db := empty_database\<lparr>customers := [ada], addresses := [ada_home]\<rparr>\<rparr>"

definition office_request :: AddAddressRequest where
  "office_request =
     \<lparr>aa_CustomerId = ada_id, aa_AddressType = ''Business'',
      aa_Street1 = ''1 Dorset Street'', aa_Street2 = ''Room 2'', aa_City = ''London'',
      aa_State = ''London'', aa_PostalCode = ''W1U 4EG'', aa_Country = ''GB'',
      aa_IsPrimary = True, aa_ValidFrom = None, aa_ValidTo = None\<rparr>"

text \<open>
  Documents: a passport and a utility bill for the stored customer, and a store in which
  the customer, still pending, has a passport on file that was verified.
\<close>

definition passport_request :: AddDocumentRequest where
  "passport_request =
     \<lparr>ad_CustomerId = ada_id, ad_DocumentType = ''Passport'',
      ad_DocumentNumber = ''AB1234567'', ad_IssuingAuthority = ''HM Passport Office'',
      ad_IssuingCountry = ''GB'', ad_IssueDate = Some 1600000000000000000,
      ad_ExpiryDate = Some 1900000000000000000\<rparr>"

definition ada_passport :: CustomerDocument where
  "ada_passport =
     \<lparr>d_ID = 9, d_CustomerID = 7, d_DocumentType = ''Passport'',
      d_DocumentNumber =
        base64_EncodeToString
          (''0123456789ab'' @ sample_Seal sample_key ''0123456789ab'' ''AB1234567''),
      d_IssuingAuthority = ''HM Passport Office'', d_IssuingCountry = ''GB'',
      d_IssueDate = 1600000000000000000, d_ExpiryDate = 1900000000000000000,
      d_VerificationStatus = ''Verified'', d_VerifiedAt = Some 1699999999500000000,
      d_VerifiedBy = Some 1, d_CreatedAt = 1699999999000000000,
      d_UpdatedAt = 1699999999500000000\<rparr>"

definition verified_world :: world where
  "verified_world =
     sample_world\<lparr>db := empty_database\<lparr>customers := [ada], customer_documents := [ada_passport]\<rparr>\<rparr>"

definition utility_request :: AddDocumentRequest where
  "utility_request =
     \<lparr>ad_CustomerId = ada_id, ad_DocumentType = ''UtilityBill'',
      ad_DocumentNumber = ''INV-2023-11'', ad_IssuingAuthority = ''Thames Water'',
      ad_IssuingCountry = ''GB'', ad_IssueDate = Some 1699000000000000000,
      ad_ExpiryDate = Some 1800000000000000000\<rparr>"

text \<open>
  The customer of the specification's example, as a request: born on 1 January 1990, with
  the tax identifier \<^verbatim>\<open>123-45-6789\<close>.
\<close>

definition ada_create :: CreateCustomerRequest where
  "ada_create =
     \<lparr>cc_FirstName = ''Ada'', cc_MiddleName = [], cc_LastName = ''Lovelace'',
      cc_DateOfBirth = Some 631152000000000000, cc_TaxId = ''123-45-6789'',
      cc_Email = ''ada@example.com'', cc_Phone = [], cc_CreatedBy = []\<rparr>"

text \<open>The request that activates the stored customer.\<close>

definition activate_request :: UpdateCustomerStatusRequest where
  "activate_request =
     \<lparr>us_Id = ada_id, us_NewStatus = ''Active'', us_Reason = ''Customer verified'',
      us_ChangedBy = []\<rparr>"

text \<open>
  Another process that changes the phone number of the stored customer through the
  versioned update, and two schedules in which it commits between the statement that
  loads the customer and the update of the call observed: the first for the calls that
  load and update, the second for \<open>AddDocument\<close>, which loads the customer, inserts the
  document and reads the documents before it updates.
\<close>

definition other_writer :: "database \<Rightarrow> database" where
  "other_writer d =
     d\<lparr>customers :=
         map (\<lambda>row. if c_ID row = 7
                     then row\<lparr>c_Phone := ''+15551234567'', c_Version := c_Version row + 1\<rparr>
                     else row)
             (customers d)\<rparr>"

definition racing_world :: world where
  "racing_world = ada_world\<lparr>schedule := [Proceed, Writer other_writer]\<rparr>"

definition racing_verified_world :: world where
  "racing_verified_world =
     verified_world\<lparr>schedule := [Proceed, Proceed, Proceed, Writer other_writer]\<rparr>"

text \<open>
  A rival \<open>AddAddress\<close> call for the same customer that asks for a primary address: its
  \<^verbatim>\<open>INSERT\<close>, and two schedules in which that \<^verbatim>\<open>INSERT\<close> commits after the call observed
  has read the addresses and just before its own \<^verbatim>\<open>INSERT\<close> (the third statement of a
  call that unsets nothing, the fourth of a call that unsets one address).
\<close>

definition rival_address :: Address where
  "rival_address =
     \<lparr>a_ID = 17, a_CustomerID = 7, a_AddressType = ''Mailing'',
      a_Street1 = ''5 Great George Street'', a_Street2 = None, a_City = ''London'',
      a_State = ''London'', a_PostalCode = ''SW1P 3AE'', a_Country = ''GB'',
      a_IsPrimary = True, a_ValidFrom = 1700000000000000000, a_ValidTo = None,
      a_CreatedAt = 1700000000000000000, a_UpdatedAt = 1700000000000000000\<rparr>"

definition rival_insert :: "database \<Rightarrow> database" where
  "rival_insert d = d\<lparr>addresses := addresses d @ [rival_address]\<rparr>"

definition racing_first_address_world :: world where
  "racing_first_address_world = ada_world\<lparr>schedule := [Proceed, Proceed, Writer rival_insert]\<rparr>"

definition racing_housed_world :: world where
  "racing_housed_world =
     housed_world\<lparr>schedule := [Proceed, Proceed, Proceed, Writer rival_insert]\<rparr>"

subsection \<open>The transition table as the specification words it\<close>

definition all_statuses :: "CustomerStatus list" where
  "all_statuses = [''Pending'', ''Active'', ''Inactive'', ''Suspended'', ''Closed'']"

definition spec_transition_table :: "(CustomerStatus \<times> CustomerStatus) list" where
  "spec_transition_table =
     [(''Pending'', ''Active''), (''Pending'', ''Closed''),
      (''Active'', ''Inactive''), (''Active'', ''Suspended''), (''Active'', ''Closed''),
      (''Inactive'', ''Active''), (''Inactive'', ''Suspended''), (''Inactive'', ''Closed''),
      (''Suspended'', ''Active''), (''Suspended'', ''Inactive''), (''Suspended'', ''Closed'')]"

subsection \<open>Primary addresses\<close>

text \<open>The addresses of a customer that carry the primary flag, as the store holds them.\<close>

definition primaries :: "UUID \<Rightarrow> database \<Rightarrow> Address list" where
  "primaries c d = filter (\<lambda>a. a_CustomerID a = c \<and> a_IsPrimary a) (addresses d)"

text \<open>
  What an update of addresses may do to a row: it keeps the identifier and the owner, and
  it never sets the primary flag.
\<close>

definition demoted :: "Address \<Rightarrow> Address \<Rightarrow> bool" where
  "demoted before after \<longleftrightarrow>
     a_ID after = a_ID before \<and> a_CustomerID after = a_CustomerID before \<and>
     (a_IsPrimary after \<longrightarrow> a_IsPrimary before)"

section \<open>Properties\<close>

lemmas CustomerStatus_defs =
  CustomerStatusPending_def CustomerStatusActive_def CustomerStatusInactive_def
  CustomerStatusSuspended_def CustomerStatusClosed_def

lemmas DocumentType_defs =
  DocumentTypePassport_def DocumentTypeDriversLicense_def DocumentTypeNationalID_def
  DocumentTypeSSN_def DocumentTypeTaxID_def DocumentTypeUtilityBill_def
  DocumentTypeBankStatement_def

lemmas VerificationStatus_defs =
  VerificationStatusPending_def VerificationStatusVerified_def
  VerificationStatusExpired_def VerificationStatusRejected_def

subsection \<open>Status transitions\<close>

lemma ValidateStatusTransition_from:
  "ValidateStatusTransition ''Pending'' n =
     (if n = ''Active'' \<or> n = ''Closed'' then None
      else Some (''invalid status transition from Pending to '' @ n))"
  "ValidateStatusTransition ''Active'' n =
     (if n = ''Inactive'' \<or> n = ''Suspended'' \<or> n = ''Closed'' then None
      else Some (''invalid status transition from Active to '' @ n))"
  "ValidateStatusTransition ''Inactive'' n =
     (if n = ''Active'' \<or> n = ''Suspended'' \<or> n = ''Closed'' then None
      else Some (''invalid status transition from Inactive to '' @ n))"
  "ValidateStatusTransition ''Suspended'' n =
     (if n = ''Active'' \<or> n = ''Inactive'' \<or> n = ''Closed'' then None
      else Some (''invalid status transition from Suspended to '' @ n))"
  "ValidateStatusTransition ''Closed'' n =
     Some (''invalid status transition from Closed to '' @ n)"
  by (auto simp: ValidateStatusTransition_def validTransitions_def CustomerStatus_defs)

text \<open>
  Claim C6. For every pair of statuses (current, requested) drawn from
  Pending, Active, Inactive, Suspended and Closed, \<open>ValidateStatusTransition\<close> succeeds
  (returns no error) if and only if the pair is an edge of the specification's transition
  table; for every other pair it returns the error whose message names both states.
\<close>

theorem ValidateStatusTransition_iff_table:
  "\<forall>current \<in> set all_statuses. \<forall>requested \<in> set all_statuses.
     (ValidateStatusTransition current requested = None
        \<longleftrightarrow> (current, requested) \<in> set spec_transition_table) \<and>
     ((current, requested) \<notin> set spec_transition_table \<longrightarrow>
        ValidateStatusTransition current requested =
          Some (''invalid status transition from '' @ current @ '' to '' @ requested))"
  by (simp add: all_statuses_def spec_transition_table_def ValidateStatusTransition_from)

theorem ValidateStatusTransition_iff_table_witness:
  "''Pending'' \<in> set all_statuses \<and> ''Suspended'' \<in> set all_statuses \<and>
   ''Active'' \<in> set all_statuses \<and>
   (''Pending'', ''Suspended'') \<notin> set spec_transition_table \<and>
   (''Pending'', ''Active'') \<in> set spec_transition_table \<and>
   ValidateStatusTransition ''Pending'' ''Active'' = None \<and>
   ValidateStatusTransition ''Pending'' ''Suspended'' =
     Some ''invalid status transition from Pending to Suspended''"
  using ValidateStatusTransition_iff_table
  by (simp add: all_statuses_def spec_transition_table_def)

subsection \<open>Base64 text\<close>

lemma b64_table:
  "list_all (\<lambda>k. index_of (encodeStd ! k) encodeStd = Some k \<and> encodeStd ! k \<noteq> CHR ''='' \<and>
                 encodeStd ! k \<noteq> CHR 0x0D \<and> encodeStd ! k \<noteq> CHR 0x0A) [0..<64]"
  by code_simp

lemma b64_sym_props:
  "b64_val (b64_sym n) = Some (n mod 64)"
  "b64_sym n \<noteq> CHR ''=''"
  "b64_sym n \<noteq> CHR 0x0D"
  "b64_sym n \<noteq> CHR 0x0A"
proof -
  have "n mod 64 \<in> set [0..<64]" by simp
  with b64_table
  have "index_of (encodeStd ! (n mod 64)) encodeStd = Some (n mod 64) \<and>
        encodeStd ! (n mod 64) \<noteq> CHR ''='' \<and>
        encodeStd ! (n mod 64) \<noteq> CHR 0x0D \<and> encodeStd ! (n mod 64) \<noteq> CHR 0x0A"
    unfolding list_all_iff by blast
  then show "b64_val (b64_sym n) = Some (n mod 64)" "b64_sym n \<noteq> CHR ''=''"
    "b64_sym n \<noteq> CHR 0x0D" "b64_sym n \<noteq> CHR 0x0A"
    by (simp_all add: b64_val_def b64_sym_def)
qed

lemma sextet_arith:
  fixes x y :: nat
  assumes "y < 256"
  shows "(x mod 4 * 16 + y div 16) mod 64 = x mod 4 * 16 + y div 16"
    and "(x mod 4 * 16 + y div 16) div 16 = x mod 4"
    and "(x mod 4 * 16 + y div 16) mod 16 = y div 16"
    and "(x mod 16 * 4 + y div 64) mod 64 = x mod 16 * 4 + y div 64"
    and "(x mod 16 * 4 + y div 64) div 4 = x mod 16"
    and "(x mod 16 * 4 + y div 64) mod 4 = y div 64"
    and "y div 4 mod 64 = y div 4"
    and "x mod 4 * 16 mod 64 = x mod 4 * 16"
    and "x mod 4 * 16 div 16 = x mod 4"
    and "x mod 16 * 4 mod 64 = x mod 16 * 4"
    and "x mod 16 * 4 div 4 = x mod 16"
  using assms by auto

text \<open>Three bytes are the four sextets read back: the arithmetic of one group.\<close>

lemma quantum_bytes:
  fixes x y z :: nat
  assumes "x < 256" "y < 256" "z < 256"
  shows "(x div 4) mod 64 * 4 + ((x mod 4 * 16 + y div 16) mod 64) div 16 = x"
    and "((x mod 4 * 16 + y div 16) mod 64) mod 16 * 16 +
         ((y mod 16 * 4 + z div 64) mod 64) div 4 = y"
    and "((y mod 16 * 4 + z div 64) mod 64) mod 4 * 64 + (z mod 64) mod 64 = z"
    and "(x div 4) mod 64 * 4 + ((x mod 4 * 16) mod 64) div 16 = x"
    and "((x mod 4 * 16 + y div 16) mod 64) mod 16 * 16 + ((y mod 16 * 4) mod 64) div 4 = y"
  by (simp_all only: sextet_arith[OF assms(1)] sextet_arith[OF assms(2)]
        sextet_arith[OF assms(3)] mod_mod_trivial div_mult_mod_eq)

lemma decode_quantum:
  "decode_quanta [b64_sym i, b64_sym j, CHR ''='', CHR ''=''] =
     Some [char_of (i mod 64 * 4 + j mod 64 div 16)]"
  "decode_quanta [b64_sym i, b64_sym j, b64_sym k, CHR ''=''] =
     Some [char_of (i mod 64 * 4 + j mod 64 div 16),
           char_of (j mod 64 mod 16 * 16 + k mod 64 div 4)]"
  "decode_quanta (b64_sym i # b64_sym j # b64_sym k # b64_sym l # rest) =
     map_option (\<lambda>tail. char_of (i mod 64 * 4 + j mod 64 div 16) #
                         char_of (j mod 64 mod 16 * 16 + k mod 64 div 4) #
                         char_of (k mod 64 mod 4 * 64 + l mod 64) # tail)
       (decode_quanta rest)"
  by (simp_all only: decode_quanta.simps b64_sym_props option.case prod.case if_True if_False
        simp_thms)

lemma of_char_lt_256: "(of_char (c::char) :: nat) < 256"
  by simp

lemma decode_quanta_encode: "decode_quanta (base64_EncodeToString d) = Some d"
proof (induction d rule: base64_EncodeToString.induct)
  case 1
  show ?case by (simp add: base64_EncodeToString.simps)
next
  case (2 a)
  show ?case
    by (simp only: base64_EncodeToString.simps decode_quantum
          quantum_bytes[OF of_char_lt_256 of_char_lt_256 of_char_lt_256] char_of_char)
next
  case (3 a b)
  show ?case
    by (simp only: base64_EncodeToString.simps decode_quantum
          quantum_bytes[OF of_char_lt_256 of_char_lt_256 of_char_lt_256] char_of_char)
next
  case (4 a b c rest)
  then show ?case
    by (simp only: base64_EncodeToString.simps append.simps decode_quantum
          quantum_bytes[OF of_char_lt_256 of_char_lt_256 of_char_lt_256] char_of_char option.map)
qed

lemma encode_no_newlines:
  "filter (\<lambda>c. c \<noteq> CHR 0x0D \<and> c \<noteq> CHR 0x0A) (base64_EncodeToString d) =
     base64_EncodeToString d"
  by (induction d rule: base64_EncodeToString.induct)
     (simp_all add: b64_sym_props base64_EncodeToString.simps)

lemma base64_roundtrip: "base64_DecodeString (base64_EncodeToString d) = Some d"
  by (simp add: base64_DecodeString_def encode_no_newlines decode_quanta_encode)

lemma base64_empty_iff: "base64_EncodeToString d = [] \<longleftrightarrow> d = []"
  by (cases d rule: base64_EncodeToString.cases) (simp_all add: base64_EncodeToString.simps)

subsection \<open>Cipher service\<close>

lemma sample_aead:
  "length k = 32 \<Longrightarrow> sample_Open k nonce (sample_Seal k nonce x) = Some x"
  by (simp add: sample_Open_def sample_Seal_def)

text \<open>
  Claim C8. For every valid 32-byte key and every string \<open>x\<close>, the empty string
  included, decrypting what \<open>Encrypt\<close> returned for \<open>x\<close> gives \<open>x\<close> back, and the
  empty string passes through both operations unchanged (nothing is read from the random
  source). The sealing primitive is the AES-GCM of the Go library, taken by its contract:
  under this key, opening what was sealed with a 12-byte nonce returns the text.
  \<open>Encrypt\<close> returns a ciphertext whenever the random source still has the 12 bytes of a
  nonce.
\<close>

theorem Decrypt_Encrypt:
  assumes valid_key: "NewEncryptor k = Inr e"
      and aead: "\<forall>nonce. length nonce = NonceSize \<longrightarrow>
                   aead_Open ext k nonce (aead_Seal ext k nonce x) = Some x"
      and entropy: "x = [] \<or> NonceSize \<le> length (rand_Reader w)"
  shows "\<exists>c w'. Encrypt ext e x w = (Inr c, w') \<and> Decrypt ext e c = Inr x \<and>
                (x = [] \<longrightarrow> c = [] \<and> w' = w)"
proof (cases "x = []")
  case True
  then show ?thesis by (simp add: Encrypt_def Decrypt_def)
next
  case False
  from valid_key have e: "key e = k" and len: "length k = 32"
    by (auto simp: NewEncryptor_def split: if_splits)
  define nonce where "nonce = take NonceSize (rand_Reader w)"
  from False entropy have nl: "length nonce = NonceSize"
    by (simp add: nonce_def)
  define data where "data = nonce @ aead_Seal ext k nonce x"
  have enc: "Encrypt ext e x w =
       (Inr (base64_EncodeToString data), w\<lparr>rand_Reader := drop NonceSize (rand_Reader w)\<rparr>)"
    using False entropy
    by (simp add: Encrypt_def aes_NewCipher_def io_ReadFull_def e len nonce_def data_def)
  have ne: "base64_EncodeToString data \<noteq> []"
    using nl by (auto simp: base64_empty_iff data_def NonceSize_def)
  have dec: "Decrypt ext e (base64_EncodeToString data) = Inr x"
    using ne nl aead
    by (simp add: Decrypt_def base64_roundtrip aes_NewCipher_def e len data_def)
  from enc dec False show ?thesis by simp
qed

theorem Decrypt_Encrypt_witness:
  "NewEncryptor sample_key = Inr \<lparr>key = sample_key\<rparr> \<and>
   aead_Open sample_ext sample_key ''0123456789ab''
     (aead_Seal sample_ext sample_key ''0123456789ab'' ''123-45-6789'') = Some ''123-45-6789'' \<and>
   NonceSize \<le> length (rand_Reader sample_world) \<and>
   (\<exists>c w'. Encrypt sample_ext \<lparr>key = sample_key\<rparr> ''123-45-6789'' sample_world = (Inr c, w') \<and>
      Decrypt sample_ext \<lparr>key = sample_key\<rparr> c = Inr ''123-45-6789'')"
proof -
  have k: "NewEncryptor sample_key = Inr \<lparr>key = sample_key\<rparr>"
    by (simp add: NewEncryptor_def sample_key_def)
  have a: "\<forall>nonce. length nonce = NonceSize \<longrightarrow>
      aead_Open sample_ext sample_key nonce
        (aead_Seal sample_ext sample_key nonce ''123-45-6789'') = Some ''123-45-6789''"
    by (simp add: sample_ext_def sample_aead sample_key_def)
  have a1: "aead_Open sample_ext sample_key ''0123456789ab''
     (aead_Seal sample_ext sample_key ''0123456789ab'' ''123-45-6789'') = Some ''123-45-6789''"
    by (simp add: sample_ext_def sample_aead sample_key_def)
  have r: "''123-45-6789'' = [] \<or> NonceSize \<le> length (rand_Reader sample_world)"
    by (simp add: sample_world_def NonceSize_def)
  from k a1 r Decrypt_Encrypt [OF k a r] show ?thesis by simp
qed

subsection \<open>Record store: the versioned update\<close>

lemma find_map_same_id:
  assumes "\<And>row. c_ID (f row) = c_ID row"
  shows "find (\<lambda>row. c_ID row = i) (map f rows) =
         map_option f (find (\<lambda>row. c_ID row = i) rows)"
  by (induction rows) (simp_all add: assms)

lemma find_Some_in: "find P xs = Some x \<Longrightarrow> x \<in> set xs \<and> P x"
  by (induction xs) (auto split: if_splits)

lemma distinct_id_unique:
  assumes "distinct (map c_ID rows)" "a \<in> set rows" "b \<in> set rows" "c_ID a = c_ID b"
  shows "a = b"
  using assms by (meson distinct_map inj_onD)

lemma db_statement_quiet: "schedule w = [] \<Longrightarrow> db_statement w = (None, w)"
  by (simp add: db_statement_def)

text \<open>
  Encryption returns whenever the text is empty or a nonce can be drawn under a 32-byte
  key, and touches nothing but the random source.
\<close>

lemma Encrypt_succeeds:
  assumes "x = [] \<or> (NonceSize \<le> length (rand_Reader w) \<and> length (key e) = 32)"
  shows "\<exists>c w'. Encrypt ext e x w = (Inr c, w') \<and> db w' = db w \<and> schedule w' = schedule w \<and>
           clock w' = clock w \<and> fresh_uuids w' = fresh_uuids w \<and>
           uuid_count w' = uuid_count w \<and> stdout w' = stdout w"
  using assms
  by (auto simp: Encrypt_def aes_NewCipher_def io_ReadFull_def)

text \<open>
  Claim C5. A call of the Record Store's \<open>UpdateCustomer\<close> that reaches the store (no
  fault of the engine and no other writer during the call, the tax identifier encrypted)
  on a table whose identifiers are unique: if the stored row's version equals the version
  the in-memory customer carried at call time, the call returns no error and the stored
  version is that version plus one (in the arithmetic of Go's \<^verbatim>\<open>int\<close>); if it differs,
  the call returns the optimistic-lock error and the store is unchanged.
\<close>

theorem pg_UpdateCustomer_version_check:
  assumes quiet: "schedule w = []"
      and enc_ok: "c_TaxID customer = [] \<or>
                   (NonceSize \<le> length (rand_Reader w) \<and> length (key (encryptor r)) = 32)"
      and pk: "distinct (map c_ID (customers (db w)))"
      and stored: "find (\<lambda>row. c_ID row = c_ID customer) (customers (db w)) = Some row"
      and call: "pg_UpdateCustomer ext r customer w = (err, customer', w')"
  shows "(c_Version row = c_Version customer \<longrightarrow>
            err = None \<and>
            (\<exists>row'. find (\<lambda>row. c_ID row = c_ID customer) (customers (db w')) = Some row' \<and>
                    c_Version row' = c_Version customer + 1)) \<and>
         (c_Version row \<noteq> c_Version customer \<longrightarrow>
            err = Some (ErrOptimisticLock (c_ID customer)) \<and> db w' = db w)"
proof -
  define c1 where "c1 = customer\<lparr>c_UpdatedAt := clock w, c_Version := c_Version customer + 1\<rparr>"
  from enc_ok obtain enc w1 where
    enc: "Encrypt ext (encryptor r) (c_TaxID customer) w = (Inr enc, w1)"
    and same: "db w1 = db w" "schedule w1 = schedule w"
    using Encrypt_succeeds[of "c_TaxID customer" w "encryptor r" ext] by auto
  have st: "db_statement w1 = (None, w1)"
    using quiet same by (simp add: db_statement_quiet)
  have hits: "customer_update_hits c1 x \<longleftrightarrow>
                c_ID x = c_ID customer \<and> c_Version x = c_Version customer" for x
    by (simp add: customer_update_hits_def c1_def)
  from stored have row_in: "row \<in> set (customers (db w))" and row_id: "c_ID row = c_ID customer"
    using find_Some_in[OF stored] by auto
  let ?upd = "\<lambda>x. if customer_update_hits c1 x then customer_updated_row c1 enc x else x"
  have run: "pg_UpdateCustomer ext r customer w =
      (if filter (customer_update_hits c1) (customers (db w)) = []
       then Some (ErrOptimisticLock (c_ID customer)) else None,
       c1, w1\<lparr>db := (db w)\<lparr>customers := map ?upd (customers (db w))\<rparr>\<rparr>)"
    by (simp add: pg_UpdateCustomer_def Let_def enc st same c1_def)
  from run call have res:
    "err = (if filter (customer_update_hits c1) (customers (db w)) = []
            then Some (ErrOptimisticLock (c_ID customer)) else None)"
    "db w' = (db w)\<lparr>customers := map ?upd (customers (db w))\<rparr>"
    by auto
  show ?thesis
  proof (intro conjI impI)
    assume v: "c_Version row = c_Version customer"
    then have hit: "customer_update_hits c1 row" using row_id by (simp add: hits)
    with row_in have "filter (customer_update_hits c1) (customers (db w)) \<noteq> []"
      by (auto simp: filter_empty_conv)
    then show "err = None" using res(1) by simp
    have idp: "\<And>x. c_ID (?upd x) = c_ID x"
      by (simp add: customer_updated_row_def)
    have "find (\<lambda>x. c_ID x = c_ID customer) (customers (db w')) = Some (?upd row)"
      using find_map_same_id[of ?upd "c_ID customer" "customers (db w)", OF idp] stored
      by (simp add: res(2))
    moreover have "c_Version (?upd row) = c_Version customer + 1"
      using hit by (simp add: customer_updated_row_def c1_def)
    ultimately
    show "\<exists>row'. find (\<lambda>row. c_ID row = c_ID customer) (customers (db w')) = Some row' \<and>
                 c_Version row' = c_Version customer + 1"
      by blast
  next
    assume v: "c_Version row \<noteq> c_Version customer"
    have nohit: "\<not> customer_update_hits c1 x" if "x \<in> set (customers (db w))" for x
    proof
      assume h: "customer_update_hits c1 x"
      then have "c_ID x = c_ID row" using row_id by (simp add: hits)
      with pk that row_in have "x = row" by (rule distinct_id_unique)
      with h v show False by (simp add: hits)
    qed
    then have "filter (customer_update_hits c1) (customers (db w)) = []"
      by (auto simp: filter_empty_conv)
    then show "err = Some (ErrOptimisticLock (c_ID customer))" using res(1) by simp
    have "map ?upd (customers (db w)) = customers (db w)"
      using nohit by (simp add: map_idI)
    with res(2) show "db w' = db w" by simp
  qed
qed

theorem pg_UpdateCustomer_version_check_witness:
  "schedule ada_world = [] \<and> c_TaxID ada = [] \<and>
   distinct (map c_ID (customers (db ada_world))) \<and>
   find (\<lambda>row. c_ID row = 7) (customers (db ada_world)) = Some ada \<and>
   c_Version ada = 1 \<and>
   fst (pg_UpdateCustomer sample_ext (repo sample_service) ada ada_world) = None \<and>
   (\<exists>row'. find (\<lambda>row. c_ID row = 7)
             (customers (db (snd (snd (pg_UpdateCustomer sample_ext (repo sample_service) ada
                                        ada_world))))) = Some row' \<and>
           c_Version row' = 2) \<and>
   fst (pg_UpdateCustomer sample_ext (repo sample_service) (ada\<lparr>c_Version := 5\<rparr>) ada_world) =
     Some (ErrOptimisticLock 7) \<and>
   db (snd (snd (pg_UpdateCustomer sample_ext (repo sample_service) (ada\<lparr>c_Version := 5\<rparr>)
                   ada_world))) = db ada_world"
proof -
  have q: "schedule ada_world = []"
    by (simp add: ada_world_def sample_world_def)
  have pk: "distinct (map c_ID (customers (db ada_world)))"
    by (simp add: ada_world_def empty_database_def)
  have t: "c_TaxID ada = []" and v: "c_Version ada = 1" and i: "c_ID ada = 7"
    by (simp_all add: ada_def)
  have st: "find (\<lambda>row. c_ID row = 7) (customers (db ada_world)) = Some ada"
    by (simp add: ada_world_def empty_database_def i)
  have fresh: "c_Version ada = c_Version ada" by simp
  have stale: "c_Version ada \<noteq> c_Version (ada\<lparr>c_Version := 5\<rparr>)" by (simp add: v)
  have a: "fst (pg_UpdateCustomer sample_ext (repo sample_service) ada ada_world) = None \<and>
      (\<exists>row'. find (\<lambda>row. c_ID row = 7)
             (customers (db (snd (snd (pg_UpdateCustomer sample_ext (repo sample_service) ada
                                        ada_world))))) = Some row' \<and>
           c_Version row' = 2)"
    using pg_UpdateCustomer_version_check
            [of ada_world ada "repo sample_service" ada sample_ext
                "fst (pg_UpdateCustomer sample_ext (repo sample_service) ada ada_world)"
                "fst (snd (pg_UpdateCustomer sample_ext (repo sample_service) ada ada_world))"
                "snd (snd (pg_UpdateCustomer sample_ext (repo sample_service) ada ada_world))"]
          q t pk st fresh
    by (simp add: i v)
  have b: "fst (pg_UpdateCustomer sample_ext (repo sample_service) (ada\<lparr>c_Version := 5\<rparr>)
                  ada_world) = Some (ErrOptimisticLock 7) \<and>
      db (snd (snd (pg_UpdateCustomer sample_ext (repo sample_service) (ada\<lparr>c_Version := 5\<rparr>)
                      ada_world))) = db ada_world"
    using pg_UpdateCustomer_version_check
            [of ada_world "ada\<lparr>c_Version := 5\<rparr>" "repo sample_service" ada sample_ext
                "fst (pg_UpdateCustomer sample_ext (repo sample_service) (ada\<lparr>c_Version := 5\<rparr>)
                        ada_world)"
                "fst (snd (pg_UpdateCustomer sample_ext (repo sample_service)
                             (ada\<lparr>c_Version := 5\<rparr>) ada_world))"
                "snd (snd (pg_UpdateCustomer sample_ext (repo sample_service)
                             (ada\<lparr>c_Version := 5\<rparr>) ada_world))"]
          q t pk st stale
    by (simp add: i v)
  from q t pk st v a b show ?thesis by simp
qed

subsection \<open>Orchestrator: UpdateCustomer and the version of the request\<close>

text \<open>
  Claim C1 says that an \<open>UpdateCustomer\<close> request carrying a stale version is rejected
  with an optimistic-lock failure. The run below is the specification's example: the
  request that changes the email address carries version 1. Sent to the stored customer
  of version 1 it succeeds and the version becomes 2. Sent again, with its version 1 now
  stale, it succeeds again: the answer carries version 3 and the stored row has changed. The
  method never compares the version of the request with the stored one.
\<close>

theorem UpdateCustomer_accepts_stale_version:
  "case UpdateCustomer sample_ext sample_service email_update ada_world of
     (first, w1) \<Rightarrow>
       (case UpdateCustomer sample_ext sample_service email_update w1 of
          (second, w2) \<Rightarrow>
            uc_Version email_update = 1 \<and>
            map c_Version (customers (db ada_world)) = [1] \<and>
            map_sum id pc_Version first = Inr 2 \<and>
            map c_Version (customers (db w1)) = [2] \<and>
            map_sum id pc_Version second = Inr 3 \<and>
            map c_Version (customers (db w2)) = [3] \<and>
            map c_UpdatedAt (customers (db w2)) = [clock w1])"
  by code_simp

subsection \<open>Orchestrator: the total of a search\<close>

lemma scan_customers_length:
  "scan_customers ext r rows = Inr cs \<Longrightarrow> length cs = length rows"
  by (induction rows arbitrary: cs) (auto split: sum.splits)

lemma ValidateSearchFilters_ok:
  assumes "\<not> length (ValidateSearchFilters req) > 0"
  shows "0 \<le> sint (sc_Limit req) \<and> sint (sc_Limit req) \<le> 100 \<and> 0 \<le> sint (sc_Offset req)"
  using assms by (auto simp: ValidateSearchFilters_def split: if_splits)

text \<open>
  Claim C10. For every \<open>SearchCustomers\<close> call that succeeds, the \<open>Total\<close> of the
  response is the number of customers in the returned page (also as a signed 32-bit
  number: a page never has more than 100 rows), and that number is the smaller of the
  effective limit and what is left of the matching rows after the offset, not the number
  of rows matching the filters. The rows are those of the store as the query saw it,
  which is the store the call leaves behind.
\<close>

theorem SearchCustomers_Total:
  assumes ok: "SearchCustomers ext s req w = (Inr resp, w')"
  shows "Total resp = of_nat (length (Customers resp)) \<and>
         sint (Total resp) = int (length (Customers resp)) \<and>
         length (Customers resp) =
           min (nat (effective_limit (build_filters req)))
               (length (filter (search_condition ext (build_filters req)) (customers (db w')))
                  - nat (effective_offset (build_filters req)))"
proof -
  from ok have valid: "\<not> length (ValidateSearchFilters req) > 0"
    by (auto simp: SearchCustomers_def Let_def split: if_splits)
  note bounds = ValidateSearchFilters_ok[OF valid]
  from ok valid obtain found where
    search: "pg_SearchCustomers ext (repo s) (build_filters req) w = (Inr found, w')"
    and resp: "resp = \<lparr>Customers = map (modelToProto ext) found, Total = of_nat (length found)\<rparr>"
    by (auto simp: SearchCustomers_def Let_def split: prod.splits sum.splits)
  let ?rows = "take (nat (effective_limit (build_filters req)))
                 (drop (nat (effective_offset (build_filters req)))
                    (sort_key (\<lambda>row. - c_CreatedAt row)
                       (filter (search_condition ext (build_filters req)) (customers (db w')))))"
  from search have scan: "scan_customers ext (repo s) ?rows = Inr found"
    by (auto simp: pg_SearchCustomers_def Let_def split: prod.splits option.splits)
  have len: "length found = length ?rows"
    using scan by (rule scan_customers_length)
  have len2: "length found =
           min (nat (effective_limit (build_filters req)))
               (length (filter (search_condition ext (build_filters req)) (customers (db w')))
                  - nat (effective_offset (build_filters req)))"
    unfolding len by (simp add: min.commute)
  have lim: "nat (effective_limit (build_filters req)) \<le> 100"
    using bounds by (auto simp: effective_limit_def build_filters_def)
  have small: "length found \<le> 100"
    using len lim by simp
  have "sint (of_nat (length found) :: 32 word) = int (length found)"
    using small by (simp add: signed_of_nat signed_take_bit_int_eq_self)
  with len2 show ?thesis
    by (simp add: resp)
qed

theorem SearchCustomers_Total_witness:
  "\<exists>resp w'. SearchCustomers sample_ext sample_service first_page_of_one two_customers_world =
       (Inr resp, w') \<and>
     Total resp = 1 \<and> length (Customers resp) = 1 \<and>
     length (filter (search_condition sample_ext (build_filters first_page_of_one))
               (customers (db w'))) = 2"
proof -
  have ev: "case SearchCustomers sample_ext sample_service first_page_of_one two_customers_world of
      (Inr resp, w') \<Rightarrow> map c_ID (customers (db w')) = [7, 8]
    | (Inl err, w') \<Rightarrow> False"
    by code_simp
  then obtain resp w' where
    run: "SearchCustomers sample_ext sample_service first_page_of_one two_customers_world =
            (Inr resp, w')"
    and ids: "map c_ID (customers (db w')) = [7, 8]"
    by (auto split: prod.splits sum.splits)
  have cond: "search_condition sample_ext (build_filters first_page_of_one) row" for row
    by (simp add: search_condition_def build_filters_def first_page_of_one_def)
  from ids have two: "length (customers (db w')) = 2"
    using length_map[of c_ID "customers (db w')"] by simp
  have lim: "effective_limit (build_filters first_page_of_one) = 1"
       "effective_offset (build_filters first_page_of_one) = 0"
    by (simp_all add: effective_limit_def effective_offset_def build_filters_def
          first_page_of_one_def)
  from SearchCustomers_Total[OF run] two show ?thesis
    by (simp add: run cond lim)
qed

subsection \<open>Runs without faults and without concurrent writers\<close>

text \<open>
  With an empty schedule every statement is run by the engine on the store as it is. The
  lemmas below say what each store operation does then.
\<close>

lemma pg_GetCustomerByID_quiet:
  assumes "schedule w = []"
  shows "pg_GetCustomerByID ext r cid w =
           ((case find (\<lambda>row. c_ID row = cid) (customers (db w)) of
               None \<Rightarrow> Inl ErrNotFound
             | Some row \<Rightarrow> scan_customer ext r row), w)"
  using assms by (simp add: pg_GetCustomerByID_def db_statement_quiet split: option.splits)

lemma pg_GetCustomerAddresses_quiet:
  assumes "schedule w = []"
  shows "pg_GetCustomerAddresses cid w =
           (Inr (sort_key (\<lambda>row. if a_IsPrimary row then 0 else (1::nat))
                  (sort_key (\<lambda>row. - a_CreatedAt row)
                     (filter (\<lambda>row. a_CustomerID row = cid) (addresses (db w))))), w)"
  using assms by (simp add: pg_GetCustomerAddresses_def db_statement_quiet)

subsection \<open>Orchestrator: the primary address\<close>

lemma demoted_refl: "list_all2 demoted xs xs"
  by (simp add: list_all2_refl demoted_def)

lemma demoted_trans:
  assumes "list_all2 demoted xs ys" "list_all2 demoted ys zs"
  shows "list_all2 demoted xs zs"
  by (rule list_all2_trans[OF _ assms]) (auto simp: demoted_def)

lemma demoted_primaries_le:
  "list_all2 demoted xs ys \<Longrightarrow>
     length (filter (\<lambda>a. a_CustomerID a = c \<and> a_IsPrimary a) ys) \<le>
     length (filter (\<lambda>a. a_CustomerID a = c \<and> a_IsPrimary a) xs)"
  by (induction rule: list_all2_induct) (auto simp: demoted_def)

lemma demoted_no_primary_with_id:
  assumes "list_all2 demoted xs ys"
      and "\<forall>b \<in> set xs. a_ID b = i \<longrightarrow> \<not> a_IsPrimary b"
  shows "\<forall>b \<in> set ys. a_ID b = i \<longrightarrow> \<not> a_IsPrimary b"
  using assms by (induction rule: list_all2_induct) (auto simp: demoted_def)

lemma pg_UpdateAddress_quiet:
  assumes quiet: "schedule w = []"
      and call: "pg_UpdateAddress (addr\<lparr>a_IsPrimary := False\<rparr>) w = (None, written, w')"
  shows "schedule w' = [] \<and> customers (db w') = customers (db w) \<and>
         customer_documents (db w') = customer_documents (db w) \<and>
         uuid_count w' = uuid_count w \<and> fresh_uuids w' = fresh_uuids w \<and> clock w' = clock w \<and>
         list_all2 demoted (addresses (db w)) (addresses (db w')) \<and>
         (\<forall>b \<in> set (addresses (db w')). a_ID b = a_ID addr \<longrightarrow> \<not> a_IsPrimary b)"
proof -
  from call quiet have w': "w' = w\<lparr>db := (db w)\<lparr>addresses :=
                    map (\<lambda>row. if a_ID row = a_ID addr
                                then address_updated_row (addr\<lparr>a_IsPrimary := False, a_UpdatedAt := clock w\<rparr>) row
                                else row)
                        (addresses (db w))\<rparr>\<rparr>"
    by (simp add: pg_UpdateAddress_def Let_def db_statement_quiet)
  have "list_all2 demoted (addresses (db w)) (addresses (db w'))"
    unfolding w' by (simp add: list_all2_map2 list_all2_refl demoted_def address_updated_row_def)
  then show ?thesis
    using quiet by (auto simp: w' address_updated_row_def)
qed

lemma unset_primaries_quiet:
  assumes "schedule w = []" and "unset_primaries existing w = (None, w')"
  shows "schedule w' = [] \<and> customers (db w') = customers (db w) \<and>
         customer_documents (db w') = customer_documents (db w) \<and>
         uuid_count w' = uuid_count w \<and> fresh_uuids w' = fresh_uuids w \<and> clock w' = clock w \<and>
         list_all2 demoted (addresses (db w)) (addresses (db w')) \<and>
         (\<forall>addr \<in> set existing. a_IsPrimary addr \<longrightarrow>
            (\<forall>b \<in> set (addresses (db w')). a_ID b = a_ID addr \<longrightarrow> \<not> a_IsPrimary b))"
  using assms
proof (induction existing arbitrary: w)
  case Nil
  then show ?case by (simp add: demoted_refl)
next
  case (Cons addr rest)
  show ?case
  proof (cases "a_IsPrimary addr")
    case False
    with Cons.prems have "unset_primaries rest w = (None, w')" by simp
    from Cons.IH[OF Cons.prems(1) this] False show ?thesis by simp
  next
    case True
    with Cons.prems obtain written w1 where
      upd: "pg_UpdateAddress (addr\<lparr>a_IsPrimary := False\<rparr>) w = (None, written, w1)"
      and rest: "unset_primaries rest w1 = (None, w')"
      by (auto split: prod.splits option.splits)
    note one = pg_UpdateAddress_quiet[OF Cons.prems(1) upd]
    then have q1: "schedule w1 = []" by simp
    note ih = Cons.IH[OF q1 rest]
    have d: "list_all2 demoted (addresses (db w)) (addresses (db w'))"
      using one ih demoted_trans by blast
    have here: "\<forall>b \<in> set (addresses (db w')). a_ID b = a_ID addr \<longrightarrow> \<not> a_IsPrimary b"
      using demoted_no_primary_with_id[of "addresses (db w1)" "addresses (db w')" "a_ID addr"]
            one ih by blast
    from one ih d here show ?thesis by auto
  qed
qed


lemma demoted_source:
  "list_all2 demoted xs ys \<Longrightarrow> b \<in> set ys \<Longrightarrow> \<exists>a \<in> set xs. demoted a b"
  by (induction rule: list_all2_induct) auto

lemma demoted_maps:
  "list_all2 demoted xs ys \<Longrightarrow> map a_ID ys = map a_ID xs \<and> map a_CustomerID ys = map a_CustomerID xs"
  by (induction rule: list_all2_induct) (auto simp: demoted_def)

lemma pg_AddAddress_quiet:
  assumes quiet: "schedule w = []"
      and call: "pg_AddAddress address w = (None, added, w')"
  shows "customers (db w') = customers (db w) \<and>
         addresses (db w') = addresses (db w) @ [added] \<and>
         a_CustomerID added = a_CustomerID address \<and> a_IsPrimary added = a_IsPrimary address"
  using assms
  by (auto simp: pg_AddAddress_def Let_def uuid_New_def db_statement_quiet split: if_splits)

lemma settle_primary_quiet:
  assumes quiet: "schedule w = []"
      and existing: "existing = sort_key (\<lambda>row. if a_IsPrimary row then 0 else (1::nat))
                  (sort_key (\<lambda>row. - a_CreatedAt row)
                     (filter (\<lambda>row. a_CustomerID row = cid) (addresses (db w))))"
      and call: "settle_primary req existing w = (Inr isPrimary, w')"
  shows "schedule w' = [] \<and> list_all2 demoted (addresses (db w)) (addresses (db w')) \<and>
         (aa_IsPrimary req \<longrightarrow> isPrimary \<and>
            (\<forall>b \<in> set (addresses (db w')). a_CustomerID b = cid \<longrightarrow> \<not> a_IsPrimary b)) \<and>
         (\<not> aa_IsPrimary req \<longrightarrow> w' = w \<and> isPrimary = (primaries cid (db w) = []))"
proof (cases "aa_IsPrimary req")
  case False
  have "list_ex a_IsPrimary existing \<longleftrightarrow> primaries cid (db w) \<noteq> []"
    by (auto simp: existing primaries_def list_ex_iff filter_empty_conv)
  with False call quiet show ?thesis
    by (auto simp: settle_primary_def demoted_refl)
next
  case True
  with call have un: "unset_primaries existing w = (None, w')" and p: "isPrimary"
    by (auto simp: settle_primary_def split: prod.splits option.splits)
  note u = unset_primaries_quiet[OF quiet un]
  have "\<not> a_IsPrimary b" if b: "b \<in> set (addresses (db w'))" and c: "a_CustomerID b = cid" for b
  proof
    assume pb: "a_IsPrimary b"
    from u b obtain a where a: "a \<in> set (addresses (db w))" and d: "demoted a b"
      using demoted_source by blast
    from d c pb have "a_CustomerID a = cid" "a_IsPrimary a" "a_ID b = a_ID a"
      by (auto simp: demoted_def)
    with a have "a \<in> set existing" by (simp add: existing)
    with u \<open>a_IsPrimary a\<close> \<open>a_ID b = a_ID a\<close> b have "\<not> a_IsPrimary b" by blast
    with pb show False by simp
  qed
  with u p True show ?thesis by simp
qed

text \<open>
  Claim C7, with the isolation it needs: no statement of the call fails and no other
  client changes the store between the statements of the call (the schedule is empty).
  A successful \<open>AddAddress\<close> then appends one address of the customer to the store and
  keeps every other row (same identifiers, same owners, in the same order). It preserves
  the invariant that at most one address per customer is primary: for every customer with
  at most one primary address before the call there is at most one after it. The first
  address of a customer with no address becomes primary even when the request leaves the
  flag unset, and an address added with the flag set is afterwards the only primary
  address of the customer: every address that was primary has been demoted.
\<close>

theorem AddAddress_primary:
  assumes quiet: "schedule w = []"
      and run: "AddAddress ext s req w = (Inr resp, w')"
  shows "\<exists>cid kept new.
           uuid_Parse ext (aa_CustomerId req) = Inr cid \<and>
           addresses (db w') = kept @ [new] \<and>
           map a_ID kept = map a_ID (addresses (db w)) \<and>
           map a_CustomerID kept = map a_CustomerID (addresses (db w)) \<and>
           a_CustomerID new = cid \<and> pa_IsPrimary resp = a_IsPrimary new \<and>
           (\<forall>c. length (primaries c (db w)) \<le> 1 \<longrightarrow> length (primaries c (db w')) \<le> 1) \<and>
           (filter (\<lambda>a. a_CustomerID a = cid) (addresses (db w)) = [] \<longrightarrow> a_IsPrimary new) \<and>
           (aa_IsPrimary req \<longrightarrow> a_IsPrimary new \<and> primaries cid (db w') = [new])"
proof -
  from run obtain cid where parse: "uuid_Parse ext (aa_CustomerId req) = Inr cid"
    by (auto simp: AddAddress_def Let_def split: if_splits sum.splits)
  define existing where "existing = sort_key (\<lambda>row. if a_IsPrimary row then 0 else (1::nat))
                  (sort_key (\<lambda>row. - a_CreatedAt row)
                     (filter (\<lambda>row. a_CustomerID row = cid) (addresses (db w))))"
  note get = pg_GetCustomerByID_quiet[OF quiet, of ext "repo s" cid]
  note lst = pg_GetCustomerAddresses_quiet[OF quiet, of cid]
  from run parse obtain isPrimary w3 added where
    settle: "settle_primary req existing w = (Inr isPrimary, w3)"
    and add: "pg_AddAddress (new_address req cid (fresh_uuids w3 (uuid_count w3)) isPrimary (clock w3))
                (w3\<lparr>uuid_count := Suc (uuid_count w3)\<rparr>) = (None, added, w')"
    and resp: "resp = addressModelToProto ext added"
    by (auto simp: AddAddress_def Let_def get lst uuid_New_def existing_def
             split: if_splits sum.splits option.splits prod.splits)
  note sp = settle_primary_quiet[OF quiet existing_def settle]
  have q4: "schedule (w3\<lparr>uuid_count := Suc (uuid_count w3)\<rparr>) = []"
    using sp by simp
  from pg_AddAddress_quiet[OF q4 add]
  have after: "addresses (db w') = addresses (db w3) @ [added]"
    and added: "a_CustomerID added = cid" "a_IsPrimary added = isPrimary"
    by (simp_all add: new_address_def)
  from sp have dem: "list_all2 demoted (addresses (db w)) (addresses (db w3))" by simp
  have inv: "length (primaries c (db w')) \<le> 1" if le: "length (primaries c (db w)) \<le> 1" for c
  proof (cases "aa_IsPrimary req")
    case True
    with sp have none: "\<forall>b \<in> set (addresses (db w3)). a_CustomerID b = cid \<longrightarrow> \<not> a_IsPrimary b"
      by simp
    show ?thesis
    proof (cases "c = cid")
      case True
      with none have "filter (\<lambda>a. a_CustomerID a = c \<and> a_IsPrimary a) (addresses (db w3)) = []"
        by (auto simp: filter_empty_conv)
      then show ?thesis by (simp add: primaries_def after)
    next
      case False
      with demoted_primaries_le[OF dem, of c] le added show ?thesis
        by (simp add: primaries_def after)
    qed
  next
    case False
    with sp have same: "w3 = w" and flag: "isPrimary = (primaries cid (db w) = [])" by simp_all
    from le added flag show ?thesis
      by (auto simp: primaries_def after same)
  qed
  have first: "a_IsPrimary added"
    if "filter (\<lambda>a. a_CustomerID a = cid) (addresses (db w)) = []"
  proof (cases "aa_IsPrimary req")
    case True
    with sp added show ?thesis by simp
  next
    case False
    from that have "primaries cid (db w) = []"
      by (auto simp: primaries_def filter_empty_conv)
    with False sp added show ?thesis by simp
  qed
  have only: "a_IsPrimary added \<and> primaries cid (db w') = [added]" if "aa_IsPrimary req"
  proof -
    from that sp have none: "\<forall>b \<in> set (addresses (db w3)). a_CustomerID b = cid \<longrightarrow> \<not> a_IsPrimary b"
      and "isPrimary" by simp_all
    then have "filter (\<lambda>a. a_CustomerID a = cid \<and> a_IsPrimary a) (addresses (db w3)) = []"
      by (auto simp: filter_empty_conv)
    with added \<open>isPrimary\<close> show ?thesis by (simp add: primaries_def after)
  qed
  from demoted_maps[OF dem] parse after added inv first only show ?thesis
    by (auto simp: resp addressModelToProto_def)
qed

theorem AddAddress_primary_witness:
  "(\<exists>resp w'. AddAddress sample_ext sample_service home_request ada_world = (Inr resp, w') \<and>
      \<not> aa_IsPrimary home_request \<and> addresses (db ada_world) = [] \<and>
      pa_IsPrimary resp \<and> length (primaries 7 (db w')) \<le> 1) \<and>
   (\<exists>resp w'. AddAddress sample_ext sample_service office_request housed_world = (Inr resp, w') \<and>
      aa_IsPrimary office_request \<and> map a_IsPrimary (addresses (db housed_world)) = [True] \<and>
      pa_IsPrimary resp \<and> map a_IsPrimary (addresses (db w')) = [False, True] \<and>
      length (primaries 7 (db w')) = 1)"
proof -
  have parse: "uuid_Parse sample_ext ada_id = Inr 7" by code_simp
  have "case AddAddress sample_ext sample_service home_request ada_world of
      (Inr resp, w') \<Rightarrow> True | (Inl err, w') \<Rightarrow> False"
    by code_simp
  then obtain resp1 w1 where
    run1: "AddAddress sample_ext sample_service home_request ada_world = (Inr resp1, w1)"
    by (auto split: prod.splits sum.splits)
  have q1: "schedule ada_world = []" and e1: "addresses (db ada_world) = []"
    by (simp_all add: ada_world_def sample_world_def empty_database_def)
  have p1: "length (primaries 7 (db ada_world)) \<le> 1"
    by (simp add: primaries_def e1)
  have first: "pa_IsPrimary resp1 \<and> length (primaries 7 (db w1)) \<le> 1"
    using AddAddress_primary[OF q1 run1] p1
    by (auto simp: e1 home_request_def parse)
  have "case AddAddress sample_ext sample_service office_request housed_world of
      (Inr resp, w') \<Rightarrow> map a_IsPrimary (addresses (db w')) = [False, True]
    | (Inl err, w') \<Rightarrow> False"
    by code_simp
  then obtain resp2 w2 where
    run2: "AddAddress sample_ext sample_service office_request housed_world = (Inr resp2, w2)"
    and flags: "map a_IsPrimary (addresses (db w2)) = [False, True]"
    by (auto split: prod.splits sum.splits)
  have q2: "schedule housed_world = []"
    and e2: "map a_IsPrimary (addresses (db housed_world)) = [True]"
    by (simp_all add: housed_world_def sample_world_def empty_database_def ada_home_def)
  have second: "pa_IsPrimary resp2 \<and> length (primaries 7 (db w2)) = 1"
    using AddAddress_primary[OF q2 run2]
    by (auto simp: office_request_def parse)
  from run1 first run2 flags second e1 e2 show ?thesis
    by (simp add: home_request_def office_request_def)
qed

subsection \<open>Sample runs\<close>

text \<open>
  Facts about the sample data, and the definitions that a run of the service on them
  unfolds. Ciphertexts stay base64 terms: decrypting one is decided by the round trip.
\<close>

lemma parse_ada: "uuid_Parse sample_ext ada_id = Inr 7"
  by code_simp

lemma valid_passport: "ValidateDocument 1700000000000000000 passport_request = []"
  by code_simp

lemma valid_utility: "ValidateDocument 1700000000000000000 utility_request = []"
  by code_simp

lemma valid_email_update: "ValidateCustomerUpdate 1700000000000000000 email_update = []"
  by code_simp

lemma pending_to_active: "ValidateStatusTransition ''Pending'' ''Active'' = None"
  by code_simp

lemma hyphenated_tax_id:
  "tax_id_errors ''123-45-6789'' = [\<lparr>Field = ''tax_id'', Message = ''invalid tax ID format''\<rparr>]"
  by code_simp

lemma Decrypt_base64:
  "Decrypt ext e (base64_EncodeToString data) =
     (if data = [] then Inr []
      else (case aes_NewCipher (key e) of
              Some err \<Rightarrow> Inl (''failed to create cipher: '' @ err)
            | None \<Rightarrow>
                (if length data < NonceSize then Inl ''ciphertext too short''
                 else (case aead_Open ext (key e) (take NonceSize data) (drop NonceSize data) of
                         None \<Rightarrow> Inl ''failed to decrypt: cipher: message authentication failed''
                       | Some plaintext \<Rightarrow> Inr plaintext))))"
  by (simp add: Decrypt_def base64_roundtrip base64_empty_iff)

lemmas sample_defs =
  ada_world_def sample_world_def empty_database_def ada_def sample_service_def sample_ext_def
  sample_key_def ada_passport_def verified_world_def racing_world_def racing_verified_world_def
  other_writer_def

lemmas run_defs =
  Let_def pg_GetCustomerByID_def pg_AddDocument_def pg_GetCustomerDocuments_def
  pg_UpdateCustomer_def pg_CreateCustomer_def db_statement_def uuid_New_def Encrypt_def
  io_ReadFull_def aes_NewCipher_def NonceSize_def scan_customer_def scan_document_def
  Decrypt_base64 base64_empty_iff sample_aead hasVerifiedIdentity_def isIdentityDocument_def
  AsTime_def CustomerStatus_defs DocumentType_defs VerificationStatus_defs uuid_Nil_def
  customer_update_hits_def customer_updated_row_def get_customer_failed_def
  apply_update_fields_def stringPtr_def activate_if_verified_def new_document_def

lemma canonical_parse_ada: "canonical_Parse ada_id = Inr 7"
  by code_simp

lemma passport_request_fields:
  "ad_CustomerId passport_request = ada_id"
  "ad_DocumentType passport_request = ''Passport''"
  "ad_DocumentNumber passport_request = ''AB1234567''"
  "ad_IssuingAuthority passport_request = ''HM Passport Office''"
  "ad_IssuingCountry passport_request = ''GB''"
  "ad_IssueDate passport_request = Some 1600000000000000000"
  "ad_ExpiryDate passport_request = Some 1900000000000000000"
  by (simp_all add: passport_request_def)

lemma utility_request_fields:
  "ad_CustomerId utility_request = ada_id"
  "ad_DocumentType utility_request = ''UtilityBill''"
  "ad_DocumentNumber utility_request = ''INV-2023-11''"
  "ad_IssuingAuthority utility_request = ''Thames Water''"
  "ad_IssuingCountry utility_request = ''GB''"
  "ad_IssueDate utility_request = Some 1699000000000000000"
  "ad_ExpiryDate utility_request = Some 1800000000000000000"
  by (simp_all add: utility_request_def)

lemma activate_request_fields:
  "us_Id activate_request = ada_id"
  "us_NewStatus activate_request = ''Active''"
  "us_Reason activate_request = ''Customer verified''"
  "us_ChangedBy activate_request = []"
  by (simp_all add: activate_request_def)

lemma email_update_fields:
  "uc_Id email_update = ada_id" "uc_Version email_update = 1" "uc_FirstName email_update = []"
  "uc_MiddleName email_update = []" "uc_LastName email_update = []"
  "uc_DateOfBirth email_update = None" "uc_TaxId email_update = []"
  "uc_Email email_update = ''ada.l@example.com''" "uc_Phone email_update = []"
  "uc_UpdatedBy email_update = []"
  by (simp_all add: email_update_def)

lemma ada_id_nonempty: "ada_id \<noteq> []"
  by (simp add: ada_id_def)

subsection \<open>Orchestrator: documents and activation\<close>

lemma Encrypt_world:
  assumes "Encrypt ext e x w = (res, w1)"
  shows "db w1 = db w \<and> schedule w1 = schedule w \<and> clock w1 = clock w \<and>
         fresh_uuids w1 = fresh_uuids w \<and> uuid_count w1 = uuid_count w \<and> stdout w1 = stdout w"
  using assms
  by (auto simp: Encrypt_def io_ReadFull_def split: if_splits option.splits)

lemma scan_customer_fields:
  assumes "scan_customer ext r row = Inr c"
  shows "c_ID c = c_ID row \<and> c_Status c = c_Status row \<and> c_Version c = c_Version row"
  using assms by (auto simp: scan_customer_def split: if_splits sum.splits)

lemma scan_document_fields:
  assumes "scan_document ext r row = Inr d"
  shows "d_DocumentType d = d_DocumentType row \<and> d_VerificationStatus d = d_VerificationStatus row \<and>
         d_CustomerID d = d_CustomerID row"
  using assms by (auto simp: scan_document_def split: if_splits sum.splits)

lemma scan_documents_verified:
  "scan_documents ext r rows = Inr docs \<Longrightarrow> hasVerifiedIdentity docs = hasVerifiedIdentity rows"
proof (induction rows arbitrary: docs)
  case Nil
  then show ?case by simp
next
  case (Cons row rows)
  then obtain d ds where d: "scan_document ext r row = Inr d"
    and ds: "scan_documents ext r rows = Inr ds" and docs: "docs = d # ds"
    by (auto split: sum.splits)
  from Cons.IH[OF ds] scan_document_fields[OF d] show ?case
    by (simp add: docs hasVerifiedIdentity_def)
qed

lemma pg_AddDocument_quiet:
  assumes quiet: "schedule w = []"
      and ok: "pg_AddDocument ext r doc w = (None, added, w')"
  shows "schedule w' = [] \<and> customers (db w') = customers (db w) \<and>
         addresses (db w') = addresses (db w) \<and>
         (\<exists>stored. customer_documents (db w') = customer_documents (db w) @ [stored] \<and>
            d_CustomerID stored = d_CustomerID doc \<and> d_DocumentType stored = d_DocumentType doc \<and>
            d_VerificationStatus stored = d_VerificationStatus doc) \<and>
         d_VerificationStatus added = d_VerificationStatus doc"
proof -
  obtain d0 w0 where id: "(if d_ID doc = uuid_Nil
            then (case uuid_New w of (u, w') \<Rightarrow> (doc\<lparr>d_ID := u\<rparr>, w'))
            else (doc, w)) = (d0, w0)"
    by (cases "(if d_ID doc = uuid_Nil
            then (case uuid_New w of (u, w') \<Rightarrow> (doc\<lparr>d_ID := u\<rparr>, w'))
            else (doc, w))") 
  then have w0: "schedule w0 = []" "db w0 = db w"
    and d0: "d_CustomerID d0 = d_CustomerID doc" "d_DocumentType d0 = d_DocumentType doc"
            "d_VerificationStatus d0 = d_VerificationStatus doc"
    using quiet by (auto simp: uuid_New_def split: if_splits)
  define d1 where "d1 = d0\<lparr>d_CreatedAt := clock w0, d_UpdatedAt := clock w0\<rparr>"
  obtain res w1 where enc: "Encrypt ext (encryptor r) (d_DocumentNumber d1) w0 = (res, w1)"
    by (cases "Encrypt ext (encryptor r) (d_DocumentNumber d1) w0")
  from Encrypt_world[OF enc] w0 have w1: "schedule w1 = []" "db w1 = db w" by simp_all
  have st: "db_statement w1 = (None, w1)" using w1 by (simp add: db_statement_quiet)
  have run: "pg_AddDocument ext r doc w =
               (case res of
                  Inl err \<Rightarrow> (Some (Errorf (''failed to encrypt document number: '' @ err)), d1, w1)
                | Inr c \<Rightarrow>
                    (None, d1,
                     w1\<lparr>db := (db w1)\<lparr>customer_documents := customer_documents (db w1) @
                                             [d1\<lparr>d_DocumentNumber := c\<rparr>]\<rparr>\<rparr>))"
    using id enc st by (simp add: pg_AddDocument_def Let_def d1_def split: sum.splits)
  show ?thesis
  proof (cases res)
    case (Inl err)
    with run ok show ?thesis by simp
  next
    case (Inr c)
    with run ok have "added = d1"
      and "w' = w1\<lparr>db := (db w1)\<lparr>customer_documents := customer_documents (db w1) @
                                             [d1\<lparr>d_DocumentNumber := c\<rparr>]\<rparr>\<rparr>"
      by simp_all
    then show ?thesis
      using w1 d0 by (simp add: d1_def)
  qed
qed


lemma pg_GetCustomerDocuments_quiet:
  assumes "schedule w = []"
  shows "pg_GetCustomerDocuments ext r cid w =
           (scan_documents ext r
              (sort_key (\<lambda>row. - d_CreatedAt row)
                 (filter (\<lambda>row. d_CustomerID row = cid) (customer_documents (db w)))), w)"
  using assms by (simp add: pg_GetCustomerDocuments_def db_statement_quiet)

lemma hasVerifiedIdentity_iff:
  "hasVerifiedIdentity docs \<longleftrightarrow>
     (\<exists>d \<in> set docs. isIdentityDocument (d_DocumentType d) \<and>
                      d_VerificationStatus d = VerificationStatusVerified)"
  by (simp add: hasVerifiedIdentity_def list_ex_iff)

lemma pg_UpdateCustomer_quiet:
  assumes quiet: "schedule w = []"
      and call: "pg_UpdateCustomer ext r customer w = (None, c', w')"
      and stored: "find (\<lambda>row. c_ID row = c_ID customer) (customers (db w)) = Some row"
  shows "schedule w' = [] \<and> addresses (db w') = addresses (db w) \<and>
         customer_documents (db w') = customer_documents (db w) \<and>
         (c_Version row = c_Version customer \<longrightarrow>
           (\<exists>row'. find (\<lambda>row. c_ID row = c_ID customer) (customers (db w')) = Some row' \<and>
                   c_Status row' = c_Status customer \<and> c_Version row' = c_Version customer + 1))"
proof -
  define c1 where "c1 = customer\<lparr>c_UpdatedAt := clock w, c_Version := c_Version customer + 1\<rparr>"
  obtain res w1 where enc: "Encrypt ext (encryptor r) (c_TaxID customer) w = (res, w1)"
    by (cases "Encrypt ext (encryptor r) (c_TaxID customer) w")
  from Encrypt_world[OF enc] quiet have w1: "schedule w1 = []" "db w1 = db w" by simp_all
  have st: "db_statement w1 = (None, w1)" using w1 by (simp add: db_statement_quiet)
  let ?upd = "\<lambda>enc x. if customer_update_hits c1 x then customer_updated_row c1 enc x else x"
  have run: "pg_UpdateCustomer ext r customer w =
      (case res of
         Inl err \<Rightarrow> (Some (Errorf (''failed to encrypt tax id: '' @ err)), c1, w1)
       | Inr enc \<Rightarrow>
          (if filter (customer_update_hits c1) (customers (db w)) = []
           then Some (ErrOptimisticLock (c_ID customer)) else None,
           c1, w1\<lparr>db := (db w)\<lparr>customers := map (?upd enc) (customers (db w))\<rparr>\<rparr>))"
    using enc st w1 by (simp add: pg_UpdateCustomer_def Let_def c1_def split: sum.splits)
  show ?thesis
  proof (cases res)
    case (Inl err)
    with run call show ?thesis by simp
  next
    case (Inr enc)
    with run call have w': "w' = w1\<lparr>db := (db w)\<lparr>customers := map (?upd enc) (customers (db w))\<rparr>\<rparr>"
      by (simp split: if_splits)
    have idp: "\<And>x. c_ID (?upd enc x) = c_ID x"
      by (simp add: customer_updated_row_def)
    have found: "find (\<lambda>x. c_ID x = c_ID customer) (customers (db w')) = Some (?upd enc row)"
      using find_map_same_id[of "?upd enc" "c_ID customer" "customers (db w)", OF idp] stored
      by (simp add: w')
    from stored have row_id: "c_ID row = c_ID customer"
      using find_Some_in[OF stored] by auto
    have "c_Version row = c_Version customer \<Longrightarrow>
            c_Status (?upd enc row) = c_Status customer \<and>
            c_Version (?upd enc row) = c_Version customer + 1"
      using row_id by (simp add: customer_update_hits_def customer_updated_row_def c1_def)
    with found show ?thesis
      using w1 by (auto simp: w')
  qed
qed

lemma activate_if_verified_quiet:
  assumes quiet: "schedule w = []"
      and call: "activate_if_verified ext s cid customer w = (None, w')"
      and stored: "find (\<lambda>row. c_ID row = cid) (customers (db w)) = Some row"
      and loaded: "scan_customer ext (repo s) row = Inr customer"
  shows "customer_documents (db w') = customer_documents (db w) \<and>
         map_option c_Status (find (\<lambda>row. c_ID row = cid) (customers (db w'))) =
           Some (if c_Status row = CustomerStatusPending \<and>
                    (\<exists>d \<in> set (customer_documents (db w)).
                        d_CustomerID d = cid \<and> isIdentityDocument (d_DocumentType d) \<and>
                        d_VerificationStatus d = VerificationStatusVerified)
                 then CustomerStatusActive else c_Status row)"
proof -
  from find_Some_in[OF stored] have row_id: "c_ID row = cid" by simp
  note f = scan_customer_fields[OF loaded]
  let ?rows = "sort_key (\<lambda>row. - d_CreatedAt row)
                 (filter (\<lambda>row. d_CustomerID row = cid) (customer_documents (db w)))"
  show ?thesis
  proof (cases "c_Status customer = CustomerStatusPending")
    case False
    with call have "w' = w" by (simp add: activate_if_verified_def)
    with False f stored show ?thesis by simp
  next
    case True
    from call True obtain docs where
      docs: "scan_documents ext (repo s) ?rows = Inr docs"
      and rest: "(if hasVerifiedIdentity docs then
                (case pg_UpdateCustomer ext (repo s)
                        (customer\<lparr>c_Status := CustomerStatusActive\<rparr>) w of
                   (Some err, activated, w2) \<Rightarrow>
                     (Some (Internal,
                            ''failed to update customer status: '' @ repo_error_Error err),
                      w2)
                 | (None, activated, w2) \<Rightarrow> (None, w2))
              else (None, w)) = (None, w')"
      by (auto simp: activate_if_verified_def pg_GetCustomerDocuments_quiet[OF quiet]
               split: sum.splits)
    have ver: "hasVerifiedIdentity docs \<longleftrightarrow>
                 (\<exists>d \<in> set (customer_documents (db w)).
                        d_CustomerID d = cid \<and> isIdentityDocument (d_DocumentType d) \<and>
                        d_VerificationStatus d = VerificationStatusVerified)"
      using scan_documents_verified[OF docs] by (auto simp: hasVerifiedIdentity_iff)
    show ?thesis
    proof (cases "hasVerifiedIdentity docs")
      case False
      with rest have "w' = w" by simp
      with False ver f stored show ?thesis by auto
    next
      case yes: True
      with rest obtain activated where
        upd: "pg_UpdateCustomer ext (repo s) (customer\<lparr>c_Status := CustomerStatusActive\<rparr>) w =
                (None, activated, w')"
        by (auto split: prod.splits option.splits)
      have stored': "find (\<lambda>row. c_ID row = c_ID (customer\<lparr>c_Status := CustomerStatusActive\<rparr>))
                       (customers (db w)) = Some row"
        using stored f row_id by simp
      from pg_UpdateCustomer_quiet[OF quiet upd stored'] f row_id
      show ?thesis
        using yes ver True by auto
    qed
  qed
qed

lemma AddDocument_passport_run:
  "map_sum id pd_VerificationStatus
     (fst (AddDocument sample_ext sample_service passport_request ada_world)) = Inr ''Pending'' \<and>
   map c_Status (customers (db (snd (AddDocument sample_ext sample_service passport_request
                                       ada_world)))) = [''Pending''] \<and>
   map d_VerificationStatus
     (customer_documents (db (snd (AddDocument sample_ext sample_service passport_request
                                     ada_world)))) = [''Pending'']"
  by (simp add: AddDocument_def canonical_parse_ada valid_passport run_defs sample_defs
        documentModelToProto_def passport_request_fields)

lemma AddDocument_utility_run:
  "map_sum id pd_VerificationStatus
     (fst (AddDocument sample_ext sample_service utility_request verified_world)) = Inr ''Pending'' \<and>
   map c_Status (customers (db (snd (AddDocument sample_ext sample_service utility_request
                                       verified_world)))) = [''Active''] \<and>
   map d_VerificationStatus
     (customer_documents (db (snd (AddDocument sample_ext sample_service utility_request
                                     verified_world)))) = [''Verified'', ''Pending'']"
  by (simp add: AddDocument_def canonical_parse_ada valid_utility run_defs sample_defs
        documentModelToProto_def utility_request_fields)

text \<open>
  Claim C2, as the code has it. A successful \<open>AddDocument\<close>, run without faults and
  without concurrent writers, stores the new document with the verification status
  \<open>Pending\<close>, whatever its type, and answers with that status: a document cannot be
  added as verified. The customer is \<open>Active\<close> afterwards exactly when the customer was
  \<open>Pending\<close> and a verified document of an identity type was on file for that customer
  before the call; otherwise the status is the one it was. The type of the document
  added plays no part: a passport added to a pending customer with no verified identity
  document leaves the customer pending, and a utility bill added to a pending customer
  with a verified passport on file activates the customer.
\<close>

theorem AddDocument_activation:
  assumes quiet: "schedule w = []"
      and run: "AddDocument ext s req w = (Inr resp, w')"
  shows "\<exists>cid row.
           uuid_Parse ext (ad_CustomerId req) = Inr cid \<and>
           find (\<lambda>row. c_ID row = cid) (customers (db w)) = Some row \<and>
           pd_VerificationStatus resp = VerificationStatusPending \<and>
           (\<exists>stored. customer_documents (db w') = customer_documents (db w) @ [stored] \<and>
              d_CustomerID stored = cid \<and> d_DocumentType stored = ad_DocumentType req \<and>
              d_VerificationStatus stored = VerificationStatusPending) \<and>
           map_option c_Status (find (\<lambda>row. c_ID row = cid) (customers (db w'))) =
             Some (if c_Status row = CustomerStatusPending \<and>
                      (\<exists>d \<in> set (customer_documents (db w)).
                          d_CustomerID d = cid \<and> isIdentityDocument (d_DocumentType d) \<and>
                          d_VerificationStatus d = VerificationStatusVerified)
                   then CustomerStatusActive else c_Status row)"
proof -
  from run obtain cid where parse: "uuid_Parse ext (ad_CustomerId req) = Inr cid"
    by (auto simp: AddDocument_def Let_def split: if_splits sum.splits)
  note get = pg_GetCustomerByID_quiet[OF quiet, of ext "repo s" cid]
  from run parse obtain row customer where
    stored: "find (\<lambda>row. c_ID row = cid) (customers (db w)) = Some row"
    and loaded: "scan_customer ext (repo s) row = Inr customer"
    by (auto simp: AddDocument_def Let_def get split: if_splits sum.splits option.splits)
  define w2 where "w2 = w\<lparr>uuid_count := Suc (uuid_count w)\<rparr>"
  define doc where "doc = new_document req cid (fresh_uuids w (uuid_count w))"
  have w2: "schedule w2 = []" "db w2 = db w"
    using quiet by (simp_all add: w2_def)
  from run parse stored loaded obtain added w3 where
    add: "pg_AddDocument ext (repo s) doc w2 = (None, added, w3)"
    and act: "activate_if_verified ext s cid customer w3 = (None, w')"
    and resp: "resp = documentModelToProto ext added"
    by (auto simp: AddDocument_def Let_def get uuid_New_def w2_def doc_def
             split: if_splits sum.splits option.splits prod.splits)
  from pg_AddDocument_quiet[OF w2(1) add] w2(2) obtain row' where
    w3: "schedule w3 = []" "customers (db w3) = customers (db w)"
    and docs3: "customer_documents (db w3) = customer_documents (db w) @ [row']"
    and row': "d_CustomerID row' = cid" "d_DocumentType row' = ad_DocumentType req"
              "d_VerificationStatus row' = VerificationStatusPending"
    and added: "d_VerificationStatus added = VerificationStatusPending"
    by (auto simp: doc_def new_document_def)
  have stored3: "find (\<lambda>row. c_ID row = cid) (customers (db w3)) = Some row"
    using stored w3 by simp
  note fin = activate_if_verified_quiet[OF w3(1) act stored3 loaded]
  have pending_not_verified: "VerificationStatusPending \<noteq> VerificationStatusVerified"
    by (simp add: VerificationStatus_defs)
  have same: "(\<exists>d \<in> set (customer_documents (db w3)).
                 d_CustomerID d = cid \<and> isIdentityDocument (d_DocumentType d) \<and>
                 d_VerificationStatus d = VerificationStatusVerified) \<longleftrightarrow>
              (\<exists>d \<in> set (customer_documents (db w)).
                 d_CustomerID d = cid \<and> isIdentityDocument (d_DocumentType d) \<and>
                 d_VerificationStatus d = VerificationStatusVerified)"
    using row' pending_not_verified by (auto simp: docs3)
  show ?thesis
    using parse stored fin same docs3 row' added
    by (auto simp: resp documentModelToProto_def)
qed

text \<open>
  The run the specification describes: a passport is added to the pending customer, who
  has no document on file. The passport is stored as \<open>Pending\<close> and the customer stays
  \<open>Pending\<close>.
\<close>

theorem AddDocument_passport_stays_pending:
  "isIdentityDocument (ad_DocumentType passport_request) \<and>
   map c_Status (customers (db ada_world)) = [CustomerStatusPending] \<and>
   customer_documents (db ada_world) = [] \<and>
   map_sum id pd_VerificationStatus
     (fst (AddDocument sample_ext sample_service passport_request ada_world)) =
     Inr VerificationStatusPending \<and>
   map d_VerificationStatus
     (customer_documents (db (snd (AddDocument sample_ext sample_service passport_request
                                     ada_world)))) = [VerificationStatusPending] \<and>
   map c_Status (customers (db (snd (AddDocument sample_ext sample_service passport_request
                                       ada_world)))) = [CustomerStatusPending]"
proof -
  have "isIdentityDocument (ad_DocumentType passport_request)"
    by (simp add: isIdentityDocument_def passport_request_fields DocumentType_defs)
  moreover have "map c_Status (customers (db ada_world)) = [CustomerStatusPending]"
    and "customer_documents (db ada_world) = []"
    by (simp_all add: sample_defs CustomerStatus_defs)
  ultimately show ?thesis
    using AddDocument_passport_run
    by (simp add: CustomerStatus_defs VerificationStatus_defs)
qed

text \<open>
  The theorem at a utility bill added to the pending customer whose verified passport is
  on file: the customer becomes \<open>Active\<close>.
\<close>

theorem AddDocument_activation_witness:
  "schedule verified_world = [] \<and>
   \<not> isIdentityDocument (ad_DocumentType utility_request) \<and>
   map c_Status (customers (db verified_world)) = [CustomerStatusPending] \<and>
   map d_VerificationStatus (customer_documents (db verified_world)) =
     [VerificationStatusVerified] \<and>
   (\<exists>resp w'. AddDocument sample_ext sample_service utility_request verified_world =
        (Inr resp, w') \<and>
      pd_VerificationStatus resp = VerificationStatusPending \<and>
      map_option c_Status (find (\<lambda>row. c_ID row = 7) (customers (db w'))) =
        Some CustomerStatusActive)"
proof -
  have q: "schedule verified_world = []"
    by (simp add: sample_defs)
  have u: "\<not> isIdentityDocument (ad_DocumentType utility_request)"
    by (simp add: isIdentityDocument_def utility_request_fields DocumentType_defs)
  have before: "map c_Status (customers (db verified_world)) = [CustomerStatusPending]"
    "map d_VerificationStatus (customer_documents (db verified_world)) =
       [VerificationStatusVerified]"
    by (simp_all add: sample_defs CustomerStatus_defs VerificationStatus_defs)
  obtain res w' where
    run0: "AddDocument sample_ext sample_service utility_request verified_world = (res, w')"
    by (cases "AddDocument sample_ext sample_service utility_request verified_world")
  with AddDocument_utility_run obtain resp where res: "res = Inr resp"
    by (cases res) auto
  note run = run0[unfolded res]
  have stored: "find (\<lambda>row. c_ID row = 7) (customers (db verified_world)) = Some ada"
    by (simp add: sample_defs)
  have pending: "c_Status ada = CustomerStatusPending"
    by (simp add: ada_def CustomerStatus_defs)
  have verified: "\<exists>d \<in> set (customer_documents (db verified_world)).
          d_CustomerID d = 7 \<and> isIdentityDocument (d_DocumentType d) \<and>
          d_VerificationStatus d = VerificationStatusVerified"
    by (simp add: sample_defs isIdentityDocument_def DocumentType_defs VerificationStatus_defs)
  from AddDocument_activation[OF q run] stored pending verified
  have "pd_VerificationStatus resp = VerificationStatusPending \<and>
      map_option c_Status (find (\<lambda>row. c_ID row = 7) (customers (db w'))) =
        Some CustomerStatusActive"
    by (auto simp: parse_ada utility_request_fields)
  with q u before run show ?thesis by simp
qed

subsection \<open>Orchestrator: what a caller sees of a lost race\<close>

text \<open>
  Claim C9 says that an optimistic-lock error of the record store reaches the caller of
  every operation that performs a versioned update as the \<open>Aborted\<close> signal and never as
  an internal error. In the runs below another process updates the customer between the
  load and the update of the call, so that the store answers with its optimistic-lock
  error. \<open>UpdateCustomer\<close> turns it into \<open>Aborted\<close>; \<open>UpdateCustomerStatus\<close> and the
  activation inside \<open>AddDocument\<close> turn it into \<open>Internal\<close>, with the text of the error
  in the message.
\<close>

theorem lock_error_surfaces_as_Internal:
  "fst (UpdateCustomer sample_ext sample_service email_update racing_world) =
     Inl (Aborted, ''customer was modified by another process'') \<and>
   fst (UpdateCustomerStatus sample_ext sample_service activate_request racing_world) =
     Inl (Internal, ''failed to update customer status: optimistic lock error'') \<and>
   fst (AddDocument sample_ext sample_service utility_request racing_verified_world) =
     Inl (Internal, ''failed to update customer status: optimistic lock error'')"
proof -
  have a: "fst (UpdateCustomer sample_ext sample_service email_update racing_world) =
     Inl (Aborted, ''customer was modified by another process'')"
    by (simp add: UpdateCustomer_def canonical_parse_ada valid_email_update run_defs sample_defs
          email_update_fields)
  have b: "fst (UpdateCustomerStatus sample_ext sample_service activate_request racing_world) =
     Inl (Internal, ''failed to update customer status: optimistic lock error'')"
    by (simp add: UpdateCustomerStatus_def canonical_parse_ada pending_to_active run_defs
          sample_defs activate_request_fields ada_id_nonempty)
  have c: "fst (AddDocument sample_ext sample_service utility_request racing_verified_world) =
     Inl (Internal, ''failed to update customer status: optimistic lock error'')"
    by (simp add: AddDocument_def canonical_parse_ada valid_utility run_defs sample_defs
          utility_request_fields)
  from a b c show ?thesis by simp
qed

subsection \<open>Orchestrator: the record of a status change\<close>

text \<open>
  Claim C3 says that a successful \<open>UpdateCustomerStatus\<close> persists the new status and
  one \<open>StatusChange\<close> record. The run below activates the stored customer. The answer
  carries the status change (previous and new status, reason, time), and the new status
  is persisted with the version raised; but the store after the call holds nothing else
  than before, its three tables being all there is, and the status change has only been
  written as a line to the standard output.
\<close>

theorem UpdateCustomerStatus_keeps_no_record:
  "map_sum id (\<lambda>r. (ps_PreviousStatus (usr_StatusChange r), ps_NewStatus (usr_StatusChange r),
                     ps_Reason (usr_StatusChange r), ps_ChangedAt (usr_StatusChange r),
                     pc_Status (usr_Customer r), pc_Version (usr_Customer r)))
     (fst (UpdateCustomerStatus sample_ext sample_service activate_request ada_world)) =
     Inr (''Pending'', ''Active'', ''Customer verified'', Some 1700000000000000000, ''Active'', 2) \<and>
   db (snd (UpdateCustomerStatus sample_ext sample_service activate_request ada_world)) =
     \<lparr>customers = [ada\<lparr>c_Status := ''Active'', c_UpdatedAt := 1700000000000000000,
                        c_Version := 2\<rparr>],
      addresses = [], customer_documents = []\<rparr> \<and>
   stdout (snd (UpdateCustomerStatus sample_ext sample_service activate_request ada_world)) =
     [''Status change: Pending -> Active, Reason: Customer verified'']"
  by (simp add: UpdateCustomerStatus_def canonical_parse_ada pending_to_active run_defs
        sample_defs activate_request_fields ada_id_nonempty modelToProto_def
        statusChangeModelToProto_def)

subsection \<open>Orchestrator: the tax identifier of the example\<close>

text \<open>
  Claim C4 says that creating the customer of the specification's example, whose tax
  identifier is \<^verbatim>\<open>123-45-6789\<close>, succeeds. \<open>CreateCustomer\<close> rejects the request as an
  invalid argument and stores nothing: the validator checks the tax identifier with an
  empty country code, hence against the generic pattern of 5 to 20 capital letters and
  digits, which the hyphens fail. With the country code \<^verbatim>\<open>US\<close> the same identifier passes.
\<close>

theorem CreateCustomer_rejects_hyphenated_tax_id:
  "cc_TaxId ada_create = ''123-45-6789'' \<and>
   fst (CreateCustomer sample_ext sample_service ada_create sample_world) =
     Inl (InvalidArgument, ''validation failed: tax_id: invalid tax ID format'') \<and>
   db (snd (CreateCustomer sample_ext sample_service ada_create sample_world)) = db sample_world \<and>
   ValidateTaxID ''123-45-6789'' [] =
     Some \<lparr>Field = ''tax_id'', Message = ''invalid tax ID format''\<rparr> \<and>
   ValidateTaxID ''123-45-6789'' ''US'' = None"
proof -
  have v: "ValidateCustomerCreate 1700000000000000000 ada_create =
             [\<lparr>Field = ''tax_id'', Message = ''invalid tax ID format''\<rparr>]"
    by code_simp
  have e: "ValidationErrors_Error [\<lparr>Field = ''tax_id'', Message = ''invalid tax ID format''\<rparr>] =
             ''validation failed: tax_id: invalid tax ID format''"
    by code_simp
  have t: "ValidateTaxID ''123-45-6789'' [] =
             Some \<lparr>Field = ''tax_id'', Message = ''invalid tax ID format''\<rparr>"
          "ValidateTaxID ''123-45-6789'' ''US'' = None"
    by code_simp+
  have c: "clock sample_world = 1700000000000000000"
    by (simp add: sample_world_def)
  have "CreateCustomer sample_ext sample_service ada_create sample_world =
          (Inl (InvalidArgument, ''validation failed: tax_id: invalid tax ID format''),
           sample_world)"
    by (simp add: CreateCustomer_def c v e)
  with t show ?thesis by (simp add: ada_create_def)
qed

subsection \<open>Orchestrator: the primary address when two calls interleave\<close>

lemma valid_home: "ValidateAddress home_request = []"
  by code_simp

lemma valid_office: "ValidateAddress office_request = []"
  by code_simp

lemma home_request_fields:
  "aa_CustomerId home_request = ada_id" "aa_IsPrimary home_request = False"
  by (simp_all add: home_request_def)

lemma office_request_fields:
  "aa_CustomerId office_request = ada_id" "aa_IsPrimary office_request = True"
  by (simp_all add: office_request_def)

lemmas address_run_defs =
  Let_def pg_GetCustomerByID_def pg_GetCustomerAddresses_def pg_UpdateAddress_def
  pg_AddAddress_def settle_primary_def db_statement_def uuid_New_def scan_customer_def
  Decrypt_def new_address_def addressModelToProto_def address_updated_row_def uuid_Nil_def
  primaries_def rival_insert_def rival_address_def ada_home_def housed_world_def
  racing_first_address_world_def racing_housed_world_def

text \<open>
  When another call changes the addresses between the statements of \<open>AddAddress\<close>, the
  invariant of at most one primary address is lost: the method reads the addresses and
  writes in separate statements, outside any transaction. In the first run the customer
  has no address and the rival's primary address is inserted between the read and the
  insert of the call: the call still makes its address primary, and the customer has two
  primary addresses. In the second run the customer has one primary address and both
  calls ask for a primary one: the call demotes the address it read, not the rival's, and
  again two primary addresses remain. Both calls succeed.
\<close>

theorem AddAddress_race_two_primaries:
  "length (primaries 7 (db racing_first_address_world)) = 0 \<and>
   map_sum id pa_IsPrimary
     (fst (AddAddress sample_ext sample_service home_request racing_first_address_world)) =
     Inr True \<and>
   map a_IsPrimary
     (addresses (db (snd (AddAddress sample_ext sample_service home_request
                            racing_first_address_world)))) = [True, True] \<and>
   length (primaries 7 (db (snd (AddAddress sample_ext sample_service home_request
                                   racing_first_address_world)))) = 2 \<and>
   length (primaries 7 (db racing_housed_world)) = 1 \<and>
   map_sum id pa_IsPrimary
     (fst (AddAddress sample_ext sample_service office_request racing_housed_world)) =
     Inr True \<and>
   map a_IsPrimary
     (addresses (db (snd (AddAddress sample_ext sample_service office_request
                            racing_housed_world)))) = [False, True, True] \<and>
   length (primaries 7 (db (snd (AddAddress sample_ext sample_service office_request
                                   racing_housed_world)))) = 2"
proof -
  have a: "length (primaries 7 (db racing_first_address_world)) = 0"
    "length (primaries 7 (db racing_housed_world)) = 1"
    by (simp_all add: address_run_defs sample_defs)
  have b: "map_sum id pa_IsPrimary
     (fst (AddAddress sample_ext sample_service home_request racing_first_address_world)) =
     Inr True \<and>
   map a_IsPrimary
     (addresses (db (snd (AddAddress sample_ext sample_service home_request
                            racing_first_address_world)))) = [True, True] \<and>
   length (primaries 7 (db (snd (AddAddress sample_ext sample_service home_request
                                   racing_first_address_world)))) = 2"
    by (simp add: AddAddress_def valid_home canonical_parse_ada home_request_fields
          address_run_defs sample_defs)
  have c: "map_sum id pa_IsPrimary
     (fst (AddAddress sample_ext sample_service office_request racing_housed_world)) =
     Inr True \<and>
   map a_IsPrimary
     (addresses (db (snd (AddAddress sample_ext sample_service office_request
                            racing_housed_world)))) = [False, True, True] \<and>
   length (primaries 7 (db (snd (AddAddress sample_ext sample_service office_request
                                   racing_housed_world)))) = 2"
    by (simp add: AddAddress_def valid_office canonical_parse_ada office_request_fields
          address_run_defs sample_defs)
  from a b c show ?thesis by simp
qed

end
